theory Spec2Isabelle
  imports Complex_Main
begin

section \<open>Email notifications for monitored jobs (tamr\_toolbox/notifications/emails.py)\<close>

subsection \<open>Values, exceptions and the operation snapshot\<close>

text \<open>
  Python exceptions that the module can meet. \<open>SMTPException\<close> stands for every instance
  of \<open>smtplib.SMTPException\<close> (and of its subclasses), carrying its text (\<open>str(e)\<close>);
  \<open>OtherException\<close> is any exception of the ssl, socket or smtplib layer that is not an
  \<open>SMTPException\<close>, but for the \<open>ValueError\<close> with which smtplib refuses arguments.
  \<open>KeyError\<close> is what the enumeration lookup raises on a name that is no member,
  \<open>TypeError\<close> what a membership test on \<open>None\<close> raises.
\<close>

datatype exn =
    SMTPException string
  | OtherException string
  | KeyError string
  | TypeError string
  | TimeoutError string
  | ValueError string

fun is_SMTPException :: "exn \<Rightarrow> bool" where
  "is_SMTPException (SMTPException t) = True"
| "is_SMTPException e = False"

text \<open>\<open>str(e)\<close>, as the f-string of the log line renders the exception.\<close>

fun str_exn :: "exn \<Rightarrow> string" where
  "str_exn (SMTPException t) = t"
| "str_exn (OtherException t) = t"
| "str_exn (KeyError t) = t"
| "str_exn (TypeError t) = t"
| "str_exn (TimeoutError t) = t"
| "str_exn (ValueError t) = t"

text \<open>
  The Python values that travel through \<open>response\<close>: \<open>None\<close>, a string, an exception
  object, an (SMTP code, text) pair, and a dict with string keys (kept in insertion order);
  and the \<open>ssl.SSLContext\<close> that \<open>ssl.create_default_context()\<close> returns.
\<close>

datatype pyval =
    PyNone
  | PyStr string
  | PyExc exn
  | PyTuple int string
  | PyDict "(string \<times> pyval) list"
  | PySSLContext

text \<open>
  Modelled from the spec: the enumeration \<open>OperationState\<close> of
  \<open>tamr_toolbox.models.operation_state\<close> is not among the sources; the spec's data model
  lists its members as PENDING, RUNNING, SUCCEEDED, FAILED and CANCELED.
\<close>

datatype OperationState = PENDING | RUNNING | SUCCEEDED | FAILED | CANCELED

text \<open>
  \<open>OperationState[name]\<close>: the lookup of a member by its name; a name that is no member
  raises \<open>KeyError(name)\<close>.
\<close>

definition OperationState_getitem :: "string \<Rightarrow> exn + OperationState" where
  "OperationState_getitem name =
     (if name = ''PENDING'' then Inr PENDING
      else if name = ''RUNNING'' then Inr RUNNING
      else if name = ''SUCCEEDED'' then Inr SUCCEEDED
      else if name = ''FAILED'' then Inr FAILED
      else if name = ''CANCELED'' then Inr CANCELED
      else Inl (KeyError name))"

text \<open>
  The operation snapshot (\<open>tamr_unify_client.operation.Operation\<close>): the two attributes the
  module reads. Whatever else the object carries lives in the record's extension.
\<close>

record operation =
  resource_id :: string
  state :: string

subsection \<open>The SMTP layer\<close>

text \<open>
  Every call the module makes into \<open>ssl\<close> and \<open>smtplib\<close>, with the arguments it passes.
  \<open>SMTP_init\<close> is \<open>smtplib.SMTP(smtp_server, smtp_port)\<close>, a plaintext connection;
  \<open>SMTP_SSL_init\<close> is \<open>smtplib.SMTP_SSL(smtp_server, smtp_port, keyfile=, certfile=,
  context=)\<close>, a connection over an encrypted channel; \<open>Starttls\<close> is
  \<open>server.starttls(keyfile=, certfile=, context=)\<close>; \<open>Exit\<close> is the \<open>__exit__\<close> of the
  \<open>with\<close> statement (smtplib sends QUIT and closes the socket there). The last argument
  of \<open>SMTP_SSL_init\<close> and of \<open>Starttls\<close> is the value passed as \<open>context\<close>.
\<close>

datatype smtp_request =
    Create_default_context
  | SMTP_init string string
  | SMTP_SSL_init string string "string option" "string option" pyval
  | Starttls "string option" "string option" pyval
  | Login string string
  | Sendmail string "string list" string
  | Exit

text \<open>
  The library and the server behind it are not part of the module: they are a parameter,
  a function from the requests made so far and the current request to what the call does,
  raise an exception (\<open>Inl\<close>) or return a value (\<open>Inr\<close>).
\<close>

type_synonym smtplib = "smtp_request list \<Rightarrow> smtp_request \<Rightarrow> exn + pyval"

text \<open>
  The effects of the module: the requests made to the SMTP layer, in order, and the lines
  written with \<open>LOGGER.error\<close>.
\<close>

record io =
  calls :: "smtp_request list"
  logged :: "string list"

definition smtp_call :: "smtplib \<Rightarrow> smtp_request \<Rightarrow> io \<Rightarrow> (exn + pyval) \<times> io" where
  "smtp_call lib c st = (lib (calls st) c, st\<lparr>calls := calls st @ [c]\<rparr>)"

text \<open>
  What the module takes from its surroundings: the SMTP layer, the rendering of a
  \<open>MIMEText\<close> with its headers (\<open>msg.as_string()\<close> of the \<open>email\<close> package),
  \<open>get_details\<close> of \<open>tamr_toolbox.utils.operation\<close> and the text an f-string gives for a
  member of \<open>OperationState\<close>.
\<close>

record 'x env =
  smtp :: smtplib
  mime_as_string :: "string \<Rightarrow> (string \<times> string) list \<Rightarrow> string"
  get_details :: "'x operation_scheme \<Rightarrow> string"
  format_state :: "OperationState \<Rightarrow> string"

text \<open>The keyword arguments that \<open>send_email\<close>, the dispatcher and \<open>monitor_job\<close> share.\<close>

record smtp_settings =
  sender_address :: string
  sender_password :: string
  recipient_addresses :: "string list"
  smtp_server :: string
  smtp_port :: string
  use_tls :: bool
  keyfile :: "string option"
  certfile :: "string option"

subsection \<open>\<open>_build_message\<close>\<close>

text \<open>\<open>sep.join(xs)\<close>.\<close>

fun join :: "string \<Rightarrow> string list \<Rightarrow> string" where
  "join sep [] = []"
| "join sep [x] = x"
| "join sep (x # y # ys) = x @ sep @ join sep (y # ys)"

definition build_message :: "'x env \<Rightarrow> string \<Rightarrow> string \<Rightarrow> string \<Rightarrow> string list \<Rightarrow> string" where
  "build_message E message subject_line sender recipients =
     mime_as_string E message
       [(''Subject'', subject_line), (''From'', sender), (''To'', join '', '' recipients)]"

subsection \<open>\<open>send_email\<close>\<close>

text \<open>
  The body of the \<open>with\<close> statement: \<open>starttls\<close> when \<open>use_tls\<close> (with \<open>keyfile\<close>,
  \<open>certfile\<close> and the context just created), then \<open>login\<close>, then \<open>sendmail\<close>, whose
  return value becomes \<open>response\<close>. An exception ends the body at the call that raised it.
\<close>

definition with_body ::
  "smtplib \<Rightarrow> smtp_settings \<Rightarrow> pyval \<Rightarrow> string \<Rightarrow> io \<Rightarrow> (exn + pyval) \<times> io" where
  "with_body lib cfg context msg st =
     (case (if use_tls cfg then smtp_call lib (Starttls (keyfile cfg) (certfile cfg) context) st
            else (Inr PyNone, st)) of
        (Inl e, st1) \<Rightarrow> (Inl e, st1)
      | (Inr _, st1) \<Rightarrow>
          (case smtp_call lib (Login (sender_address cfg) (sender_password cfg)) st1 of
             (Inl e, st2) \<Rightarrow> (Inl e, st2)
           | (Inr _, st2) \<Rightarrow>
               smtp_call lib (Sendmail (sender_address cfg) (recipient_addresses cfg) msg) st2))"

text \<open>
  The \<open>try\<close> block: the default SSL context, the connection (plaintext when \<open>use_tls\<close>,
  \<open>SMTP_SSL\<close> with \<open>keyfile\<close>, \<open>certfile\<close> and the context otherwise), the body, and the
  \<open>__exit__\<close> of the \<open>with\<close> statement, which runs whether the body raised or not. An exception of \<open>__exit__\<close> replaces the body's;
  smtplib's \<open>__exit__\<close> returns \<open>None\<close>, so it never swallows one.
\<close>

definition smtp_session :: "smtplib \<Rightarrow> smtp_settings \<Rightarrow> string \<Rightarrow> io \<Rightarrow> (exn + pyval) \<times> io" where
  "smtp_session lib cfg msg st =
     (case smtp_call lib Create_default_context st of
        (Inl e, st1) \<Rightarrow> (Inl e, st1)
      | (Inr context, st1) \<Rightarrow>
          (case smtp_call lib
                  (if use_tls cfg then SMTP_init (smtp_server cfg) (smtp_port cfg)
                   else SMTP_SSL_init (smtp_server cfg) (smtp_port cfg) (keyfile cfg) (certfile cfg)
                          context)
                  st1 of
             (Inl e, st2) \<Rightarrow> (Inl e, st2)
           | (Inr _, st2) \<Rightarrow>
               (case with_body lib cfg context msg st2 of
                  (r, st3) \<Rightarrow>
                    (case smtp_call lib Exit st3 of
                       (Inl e', st4) \<Rightarrow> (Inl e', st4)
                     | (Inr _, st4) \<Rightarrow> (r, st4)))))"

text \<open>
  The dict that stands in for the response when an \<open>SMTPException\<close> is suppressed:
  \<open>{"type": "SMTPException", "text": f'The email: "{message}" failed to send.', "error": e}\<close>.
\<close>

definition failure_descriptor :: "string \<Rightarrow> exn \<Rightarrow> pyval" where
  "failure_descriptor message e =
     PyDict [(''type'', PyStr ''SMTPException''),
             (''text'', PyStr (''The email: '' @ [CHR 0x22] @ message @ [CHR 0x22] @ '' failed to send.'')),
             (''error'', PyExc e)]"

text \<open>
  \<open>send_email\<close>. Only an \<open>SMTPException\<close> is caught: it is logged, and then either
  replaced by the descriptor (\<open>raise_error\<close> false) or raised again. Any other exception
  leaves the function as it is. The result is the pair \<open>(message, response)\<close>.
\<close>

definition send_email ::
  "'x env \<Rightarrow> string \<Rightarrow> string \<Rightarrow> smtp_settings \<Rightarrow> bool \<Rightarrow> io \<Rightarrow> (exn + string \<times> pyval) \<times> io" where
  "send_email E message subject_line cfg raise_error st =
     (let msg = build_message E message subject_line (sender_address cfg) (recipient_addresses cfg)
      in case smtp_session (smtp E) cfg msg st of
           (Inr response, st1) \<Rightarrow> (Inr (message, response), st1)
         | (Inl e, st1) \<Rightarrow>
             if is_SMTPException e then
               (let st2 = st1\<lparr>logged := logged st1 @ [''Error: '' @ str_exn e]\<rparr>
                in if \<not> raise_error then (Inr (message, failure_descriptor message e), st2)
                   else (Inl e, st2))
             else (Inl e, st1))"

subsection \<open>\<open>_send_job_status_message\<close>\<close>

text \<open>
  The dispatcher. \<open>notify_states\<close> is \<open>None\<close> or a list of states; \<open>state in None\<close>
  raises a \<open>TypeError\<close>. The call of \<open>send_email\<close> passes no \<open>raise_error\<close>, so the
  default \<open>True\<close> applies. The result is \<open>None\<close> or the pair \<open>send_email\<close> returned.
\<close>

definition send_job_status_message ::
  "'x env \<Rightarrow> smtp_settings \<Rightarrow> 'x operation_scheme \<Rightarrow> OperationState list option \<Rightarrow> io
     \<Rightarrow> (exn + (string \<times> pyval) option) \<times> io" where
  "send_job_status_message E cfg operation notify_states st =
     (case OperationState_getitem (state operation) of
        Inl e \<Rightarrow> (Inl e, st)
      | Inr s \<Rightarrow>
          (case notify_states of
             None \<Rightarrow> (Inl (TypeError ''argument of type 'NoneType' is not iterable''), st)
           | Some ns \<Rightarrow>
               if s \<in> set ns then
                 (let message = get_details E operation
                  in case send_email E message
                            (''Job '' @ resource_id operation @ '': '' @ format_state E s)
                            cfg True st of
                       (Inl e, st1) \<Rightarrow> (Inl e, st1)
                     | (Inr resp, st1) \<Rightarrow> (Inr (Some resp), st1))
               else (Inr None, st)))"

subsection \<open>\<open>monitor_job\<close>\<close>

text \<open>
  What the poller sees of the world: the snapshot that the \<open>i\<close>-th fetch of the operation
  returns, and the seconds elapsed since the loop started, as read in the \<open>i\<close>-th round.
  Resolving a job id into an operation is the service's part and is not modelled.
\<close>

record 'x service =
  fetch :: "nat \<Rightarrow> 'x operation_scheme"
  elapsed :: "nat \<Rightarrow> real"

text \<open>The effects of monitoring: those of the emails sent, and the sleeps between polls.\<close>

record monitor_io =
  mail :: io
  slept :: "real list"

text \<open>The terminal states (the spec's glossary): succeeded, failed and canceled.\<close>

fun terminal :: "OperationState \<Rightarrow> bool" where
  "terminal SUCCEEDED = True"
| "terminal FAILED = True"
| "terminal CANCELED = True"
| "terminal s = False"

definition all_states :: "OperationState list" where
  "all_states = [SUCCEEDED, FAILED, CANCELED, PENDING, RUNNING]"

text \<open>
  Modelled from the spec: the poller \<open>monitor_job\<close> of \<open>tamr_toolbox.notifications.common\<close>
  (imported as \<open>monitor_job_common\<close>) is not among the sources. The spec's section 4.1
  gives its loop: fetch the current state; if the state is among the states to notify on
  (all of them when \<open>notify_states\<close> is unset), invoke the dispatcher with the fresh
  snapshot and append its result to the log; stop when the state is terminal; fail with a
  Timeout error when \<open>timeout_seconds\<close> is set and the elapsed time exceeds it; otherwise
  sleep \<open>poll_interval_seconds\<close>, or the remaining budget if that is smaller, and repeat.
  A state that is no member of \<open>OperationState\<close> is fatal (section 7). The loop need not
  end, so it runs on fuel: \<open>None\<close> is a loop that has not returned within \<open>fuel\<close> rounds.
  The spec gives the poller no use of \<open>send_message\<close>.
\<close>

fun monitor_loop ::
  "nat \<Rightarrow> (smtp_settings \<Rightarrow> 'x operation_scheme \<Rightarrow> OperationState list option \<Rightarrow> io
            \<Rightarrow> (exn + (string \<times> pyval) option) \<times> io)
       \<Rightarrow> 'x service \<Rightarrow> smtp_settings \<Rightarrow> real \<Rightarrow> real option \<Rightarrow> OperationState list
       \<Rightarrow> nat \<Rightarrow> (string \<times> pyval) list \<Rightarrow> monitor_io
       \<Rightarrow> ((exn + (string \<times> pyval) list) \<times> monitor_io) option" where
  "monitor_loop 0 send_status svc cfg interval timeout ns i list_responses st = None"
| "monitor_loop (Suc fuel) send_status svc cfg interval timeout ns i list_responses st =
     (let operation = fetch svc i
      in case OperationState_getitem (state operation) of
           Inl e \<Rightarrow> Some (Inl e, st)
         | Inr s \<Rightarrow>
             (case (if s \<in> set ns then send_status cfg operation (Some ns) (mail st)
                    else (Inr None, mail st)) of
                (Inl e, m1) \<Rightarrow> Some (Inl e, st\<lparr>mail := m1\<rparr>)
              | (Inr r, m1) \<Rightarrow>
                  (let responses1 = (case r of None \<Rightarrow> list_responses | Some entry \<Rightarrow> list_responses @ [entry]);
                       st1 = st\<lparr>mail := m1\<rparr>
                   in if terminal s then Some (Inr responses1, st1)
                      else
                        (case timeout of
                           None \<Rightarrow>
                             monitor_loop fuel send_status svc cfg interval timeout ns (Suc i) responses1
                               (st1\<lparr>slept := slept st1 @ [interval]\<rparr>)
                         | Some T \<Rightarrow>
                             if T < elapsed svc i then
                               Some (Inl (TimeoutError ''the operation did not finish in time''), st1)
                             else
                               monitor_loop fuel send_status svc cfg interval timeout ns (Suc i) responses1
                                 (st1\<lparr>slept := slept st1 @ [min interval (T - elapsed svc i)]\<rparr>)))))"

definition monitor_job_common ::
  "nat \<Rightarrow> (string \<Rightarrow> string \<Rightarrow> smtp_settings \<Rightarrow> bool \<Rightarrow> io \<Rightarrow> (exn + string \<times> pyval) \<times> io)
       \<Rightarrow> (smtp_settings \<Rightarrow> 'x operation_scheme \<Rightarrow> OperationState list option \<Rightarrow> io
            \<Rightarrow> (exn + (string \<times> pyval) option) \<times> io)
       \<Rightarrow> 'x service \<Rightarrow> smtp_settings \<Rightarrow> real \<Rightarrow> real option \<Rightarrow> OperationState list option
       \<Rightarrow> monitor_io \<Rightarrow> ((exn + (string \<times> pyval) list) \<times> monitor_io) option" where
  "monitor_job_common fuel send_message send_status_function svc cfg poll_interval_seconds
       timeout_seconds notify_states st =
     monitor_loop fuel send_status_function svc cfg poll_interval_seconds timeout_seconds
       (case notify_states of None \<Rightarrow> all_states | Some ns \<Rightarrow> ns) 0 [] st"

text \<open>
  \<open>monitor_job\<close> of the email module hands everything to the poller, with \<open>send_email\<close>
  as \<open>send_message\<close> and the dispatcher as \<open>send_status_function\<close>.
\<close>

definition monitor_job ::
  "nat \<Rightarrow> 'x env \<Rightarrow> 'x service \<Rightarrow> smtp_settings \<Rightarrow> real \<Rightarrow> real option \<Rightarrow> OperationState list option
       \<Rightarrow> monitor_io \<Rightarrow> ((exn + (string \<times> pyval) list) \<times> monitor_io) option" where
  "monitor_job fuel E svc cfg poll_interval_seconds timeout_seconds notify_states st =
     monitor_job_common fuel (send_email E) (send_job_status_message E) svc cfg
       poll_interval_seconds timeout_seconds notify_states st"

subsection \<open>Concrete surroundings, for evaluation\<close>

text \<open>
  What \<open>sendmail\<close> returns when the server refused the recipients listed, each with its
  SMTP code and text: the dict with one entry per refused recipient (the docstring of
  \<open>send_email\<close>); it is empty when every recipient was accepted.
\<close>

definition refusal_dict :: "(string \<times> int \<times> string) list \<Rightarrow> pyval" where
  "refusal_dict refused = PyDict (map (\<lambda>(r, code, text). (r, PyTuple code text)) refused)"

text \<open>
  A server on which every call returns: the creation of the context with a context,
  \<open>sendmail\<close> with the given refusals.
\<close>

definition server_refusing :: "(string \<times> int \<times> string) list \<Rightarrow> smtplib" where
  "server_refusing refused history request =
     (case request of
        Create_default_context \<Rightarrow> Inr PySSLContext
      | Sendmail a b m \<Rightarrow> Inr (refusal_dict refused)
      | _ \<Rightarrow> Inr PyNone)"

text \<open>A server that rejects the login with an \<open>SMTPException\<close>.\<close>

definition server_rejecting_login :: smtplib where
  "server_rejecting_login history request =
     (case request of
        Create_default_context \<Rightarrow> Inr PySSLContext
      | Login a p \<Rightarrow> Inl (SMTPException ''535 authentication failed'')
      | Sendmail a b m \<Rightarrow> Inr (PyDict [])
      | _ \<Rightarrow> Inr PyNone)"

text \<open>
  smtplib's check of its arguments (\<open>smtplib.py\<close> of Python 3.11, \<open>SMTP.starttls\<close> and
  \<open>SMTP_SSL.__init__\<close>): a context given together with a keyfile or a certfile is refused
  with a \<open>ValueError\<close>. The check is put in front of a given SMTP layer.
\<close>

definition mutually_exclusive :: "string option \<Rightarrow> string option \<Rightarrow> pyval \<Rightarrow> exn option" where
  "mutually_exclusive k c context =
     (if context \<noteq> PyNone \<and> k \<noteq> None
        then Some (ValueError ''context and keyfile arguments are mutually exclusive'')
      else if context \<noteq> PyNone \<and> c \<noteq> None
        then Some (ValueError ''context and certfile arguments are mutually exclusive'')
      else None)"

definition checking_arguments :: "smtplib \<Rightarrow> smtplib" where
  "checking_arguments lib history request =
     (case request of
        Starttls k c context \<Rightarrow>
          (case mutually_exclusive k c context of Some e \<Rightarrow> Inl e | None \<Rightarrow> lib history request)
      | SMTP_SSL_init h p k c context \<Rightarrow>
          (case mutually_exclusive k c context of Some e \<Rightarrow> Inl e | None \<Rightarrow> lib history request)
      | _ \<Rightarrow> lib history request)"

definition example_format :: "OperationState \<Rightarrow> string" where
  "example_format s =
     (case s of
        PENDING \<Rightarrow> ''OperationState.PENDING''
      | RUNNING \<Rightarrow> ''OperationState.RUNNING''
      | SUCCEEDED \<Rightarrow> ''OperationState.SUCCEEDED''
      | FAILED \<Rightarrow> ''OperationState.FAILED''
      | CANCELED \<Rightarrow> ''OperationState.CANCELED'')"

definition example_env :: "smtplib \<Rightarrow> unit env" where
  "example_env lib =
     \<lparr>smtp = lib,
      mime_as_string = (\<lambda>body headers. concat (map (\<lambda>(k, v). k @ '': '' @ v @ ''; '') headers) @ body),
      get_details = (\<lambda>operation. ''Job '' @ resource_id operation @ '' is '' @ state operation),
      format_state = example_format\<rparr>"

definition example_cfg :: "bool \<Rightarrow> smtp_settings" where
  "example_cfg tls =
     \<lparr>sender_address = ''pipeline@a.org'', sender_password = ''secret'',
      recipient_addresses = [''x@b.org'', ''y@b.org'', ''z@b.org''],
      smtp_server = ''smtp.a.org'', smtp_port = ''587'', use_tls = tls,
      keyfile = None, certfile = None\<rparr>"

text \<open>The same settings with a private key (\<open>keyfile="key.pem"\<close>).\<close>

definition example_cfg_with_key :: "bool \<Rightarrow> smtp_settings" where
  "example_cfg_with_key tls = (example_cfg tls)\<lparr>keyfile := Some ''key.pem''\<rparr>"

definition example_operation :: "string \<Rightarrow> operation" where
  "example_operation raw = \<lparr>resource_id = ''17'', state = raw\<rparr>"

definition io0 :: io where
  "io0 = \<lparr>calls = [], logged = []\<rparr>"

text \<open>A job that is still running at every poll, polled every two and a half seconds.\<close>

definition example_service :: "unit service" where
  "example_service =
     \<lparr>fetch = (\<lambda>i. example_operation ''RUNNING''), elapsed = (\<lambda>i. real i * 2.5)\<rparr>"

definition monitor_io0 :: monitor_io where
  "monitor_io0 = \<lparr>mail = io0, slept = []\<rparr>"

subsection \<open>Reading the trace of requests\<close>

text \<open>
  Requests that open a connection or upgrade one, requests that submit a message, and the
  connection request \<open>send_email\<close> makes for given settings.
\<close>

fun connects :: "smtp_request \<Rightarrow> bool" where
  "connects (SMTP_init h p) = True"
| "connects (SMTP_SSL_init h p k c context) = True"
| "connects (Starttls k c context) = True"
| "connects r = False"

fun is_sendmail :: "smtp_request \<Rightarrow> bool" where
  "is_sendmail (Sendmail a b m) = True"
| "is_sendmail r = False"

definition connect_request :: "smtp_settings \<Rightarrow> pyval \<Rightarrow> smtp_request" where
  "connect_request cfg context =
     (if use_tls cfg then SMTP_init (smtp_server cfg) (smtp_port cfg)
      else SMTP_SSL_init (smtp_server cfg) (smtp_port cfg) (keyfile cfg) (certfile cfg) context)"

section \<open>Properties\<close>

subsection \<open>The SMTP session\<close>

lemma with_body_logged: "logged (snd (with_body lib cfg ctx msg st)) = logged st"
  by (cases "use_tls cfg";
      cases "lib (calls st) (Starttls (keyfile cfg) (certfile cfg) ctx)";
      cases "lib (calls st) (Login (sender_address cfg) (sender_password cfg))";
      cases "lib (calls st @ [Starttls (keyfile cfg) (certfile cfg) ctx]) (Login (sender_address cfg) (sender_password cfg))")
     (simp_all add: with_body_def smtp_call_def)

lemma with_body_trace:
  "\<exists>new. calls (snd (with_body lib cfg ctx msg st)) = calls st @ new
      \<and> Create_default_context \<notin> set new \<and> Exit \<notin> set new
      \<and> length (filter is_sendmail new) \<le> 1
      \<and> (\<forall>a b m. Sendmail a b m \<in> set new \<longrightarrow>
            a = sender_address cfg \<and> b = recipient_addresses cfg \<and> m = msg)
      \<and> (if use_tls cfg then \<exists>rest. new = Starttls (keyfile cfg) (certfile cfg) ctx # rest \<and> \<not> list_ex connects rest
          else \<not> list_ex connects new)"
  by (cases "use_tls cfg";
      cases "lib (calls st) (Starttls (keyfile cfg) (certfile cfg) ctx)";
      cases "lib (calls st) (Login (sender_address cfg) (sender_password cfg))";
      cases "lib (calls st @ [Starttls (keyfile cfg) (certfile cfg) ctx]) (Login (sender_address cfg) (sender_password cfg))")
     (simp_all add: with_body_def smtp_call_def)

lemma smtp_session_cases [case_names context_raises connect_raises exit_raises exit_returns]:
  obtains
    e where "lib (calls st) Create_default_context = Inl e"
      and "smtp_session lib cfg msg st = (Inl e, st\<lparr>calls := calls st @ [Create_default_context]\<rparr>)"
  | v e where "lib (calls st) Create_default_context = Inr v"
      and "lib (calls st @ [Create_default_context]) (connect_request cfg v) = Inl e"
      and "smtp_session lib cfg msg st =
             (Inl e, st\<lparr>calls := calls st @ [Create_default_context, connect_request cfg v]\<rparr>)"
  | v v' r st3 e where "lib (calls st) Create_default_context = Inr v"
      and "lib (calls st @ [Create_default_context]) (connect_request cfg v) = Inr v'"
      and "with_body lib cfg v msg (st\<lparr>calls := calls st @ [Create_default_context, connect_request cfg v]\<rparr>) = (r, st3)"
      and "lib (calls st3) Exit = Inl e"
      and "smtp_session lib cfg msg st = (Inl e, st3\<lparr>calls := calls st3 @ [Exit]\<rparr>)"
  | v v' r st3 v'' where "lib (calls st) Create_default_context = Inr v"
      and "lib (calls st @ [Create_default_context]) (connect_request cfg v) = Inr v'"
      and "with_body lib cfg v msg (st\<lparr>calls := calls st @ [Create_default_context, connect_request cfg v]\<rparr>) = (r, st3)"
      and "lib (calls st3) Exit = Inr v''"
      and "smtp_session lib cfg msg st = (r, st3\<lparr>calls := calls st3 @ [Exit]\<rparr>)"
proof (cases "lib (calls st) Create_default_context")
  case (Inl e)
  then show ?thesis
    using that(1) by (simp add: smtp_session_def smtp_call_def)
next
  case ctx: (Inr v)
  show ?thesis
  proof (cases "lib (calls st @ [Create_default_context]) (connect_request cfg v)")
    case (Inl e)
    with ctx show ?thesis
      using that(2) by (simp add: smtp_session_def smtp_call_def connect_request_def)
  next
    case conn: (Inr v')
    obtain r st3 where
      wb: "with_body lib cfg v msg (st\<lparr>calls := calls st @ [Create_default_context, connect_request cfg v]\<rparr>) = (r, st3)"
      by (cases "with_body lib cfg v msg (st\<lparr>calls := calls st @ [Create_default_context, connect_request cfg v]\<rparr>)")
    show ?thesis
    proof (cases "lib (calls st3) Exit")
      case (Inl e)
      with ctx conn wb show ?thesis
        using that(3) by (simp add: smtp_session_def smtp_call_def connect_request_def)
    next
      case (Inr v'')
      with ctx conn wb show ?thesis
        using that(4) by (simp add: smtp_session_def smtp_call_def connect_request_def)
    qed
  qed
qed

lemma smtp_session_logged: "logged (snd (smtp_session lib cfg msg st)) = logged st"
proof (cases rule: smtp_session_cases[of lib st cfg msg])
  case (exit_raises v v' r st3 e)
  with with_body_logged[of lib cfg v msg "st\<lparr>calls := calls st @ [Create_default_context, connect_request cfg v]\<rparr>"]
  show ?thesis by simp
next
  case (exit_returns v v' r st3 v'')
  with with_body_logged[of lib cfg v msg "st\<lparr>calls := calls st @ [Create_default_context, connect_request cfg v]\<rparr>"]
  show ?thesis by simp
qed simp_all

lemma smtp_session_trace:
  "\<exists>new. calls (snd (smtp_session lib cfg msg st)) = calls st @ Create_default_context # new
      \<and> Create_default_context \<notin> set new
      \<and> length (filter is_sendmail new) \<le> 1
      \<and> (\<forall>a b m. Sendmail a b m \<in> set new \<longrightarrow>
            a = sender_address cfg \<and> b = recipient_addresses cfg \<and> m = msg)"
proof (cases rule: smtp_session_cases[of lib st cfg msg])
  case (exit_raises v v' r st3 e)
  with with_body_trace[of lib cfg v msg "st\<lparr>calls := calls st @ [Create_default_context, connect_request cfg v]\<rparr>"]
  show ?thesis by (auto simp: connect_request_def)
next
  case (exit_returns v v' r st3 v'')
  with with_body_trace[of lib cfg v msg "st\<lparr>calls := calls st @ [Create_default_context, connect_request cfg v]\<rparr>"]
  show ?thesis by (auto simp: connect_request_def)
qed (simp_all add: connect_request_def)


lemma getitem_member:
  "OperationState_getitem name = Inr s \<Longrightarrow>
     name \<in> {''PENDING'', ''RUNNING'', ''SUCCEEDED'', ''FAILED'', ''CANCELED''}"
  by (auto simp: OperationState_getitem_def split: if_splits)

lemma getitem_unknown:
  "name \<notin> {''PENDING'', ''RUNNING'', ''SUCCEEDED'', ''FAILED'', ''CANCELED''} \<Longrightarrow>
     OperationState_getitem name = Inl (KeyError name)"
  by (simp add: OperationState_getitem_def)

lemma send_email_calls:
  "calls (snd (send_email E message subject_line cfg raise_error st)) =
     calls (snd (smtp_session (smtp E) cfg
        (build_message E message subject_line (sender_address cfg) (recipient_addresses cfg)) st))"
  by (cases "smtp_session (smtp E) cfg
        (build_message E message subject_line (sender_address cfg) (recipient_addresses cfg)) st")
     (auto simp: send_email_def Let_def split: sum.splits)

lemma send_email_raising:
  "fst (send_email E message subject_line cfg True st) =
     (case fst (smtp_session (smtp E) cfg
        (build_message E message subject_line (sender_address cfg) (recipient_addresses cfg)) st) of
        Inl e \<Rightarrow> Inl e | Inr response \<Rightarrow> Inr (message, response))"
  by (cases "smtp_session (smtp E) cfg
        (build_message E message subject_line (sender_address cfg) (recipient_addresses cfg)) st")
     (auto simp: send_email_def Let_def split: sum.splits)

lemma dispatch_notified:
  assumes "OperationState_getitem (state operation) = Inr s" and "s \<in> set ns"
  shows "send_job_status_message E cfg operation (Some ns) st =
     (case send_email E (get_details E operation)
             (''Job '' @ resource_id operation @ '': '' @ format_state E s) cfg True st of
        (Inl e, st1) \<Rightarrow> (Inl e, st1)
      | (Inr resp, st1) \<Rightarrow> (Inr (Some resp), st1))"
  using assms by (simp add: send_job_status_message_def Let_def)

lemma dispatch_snd:
  assumes "OperationState_getitem (state operation) = Inr s" and "s \<in> set ns"
  shows "snd (send_job_status_message E cfg operation (Some ns) st) =
     snd (send_email E (get_details E operation)
             (''Job '' @ resource_id operation @ '': '' @ format_state E s) cfg True st)"
  unfolding dispatch_notified[OF assms]
  by (simp split: prod.splits sum.splits)

lemma dispatch_fst:
  assumes "OperationState_getitem (state operation) = Inr s" and "s \<in> set ns"
  shows "fst (send_job_status_message E cfg operation (Some ns) st) =
     (case fst (send_email E (get_details E operation)
             (''Job '' @ resource_id operation @ '': '' @ format_state E s) cfg True st) of
        Inl e \<Rightarrow> Inl e | Inr resp \<Rightarrow> Inr (Some resp))"
  unfolding dispatch_notified[OF assms]
  by (simp split: prod.splits sum.splits)

lemmas example_defs = example_env_def example_cfg_def example_operation_def io0_def
  example_format_def server_refusing_def server_rejecting_login_def refusal_dict_def

lemmas model_defs = send_job_status_message_def send_email_def smtp_session_def with_body_def
  smtp_call_def build_message_def failure_descriptor_def OperationState_getitem_def Let_def

subsection \<open>Unknown states\<close>

text \<open>
  C3. An operation whose raw state names no member of \<open>OperationState\<close> makes the
  dispatcher fail with the \<open>KeyError\<close> of the lookup, whatever \<open>notify_states\<close> is
  (\<open>None\<close> included): no request reaches the SMTP layer and nothing is logged, the
  effects are as before the call.
\<close>

theorem unknown_state_raises_KeyError:
  assumes "state operation \<notin> {''PENDING'', ''RUNNING'', ''SUCCEEDED'', ''FAILED'', ''CANCELED''}"
  shows "send_job_status_message E cfg operation notify_states st =
           (Inl (KeyError (state operation)), st)"
  using getitem_unknown[OF assms] by (simp add: send_job_status_message_def)

theorem unknown_state_raises_KeyError_witness:
  "state (example_operation ''DONE'') \<notin> {''PENDING'', ''RUNNING'', ''SUCCEEDED'', ''FAILED'', ''CANCELED''}
   \<and> send_job_status_message (example_env (server_refusing [])) (example_cfg True)
        (example_operation ''DONE'') (Some [PENDING, RUNNING, SUCCEEDED, FAILED, CANCELED]) io0 =
        (Inl (KeyError ''DONE''), io0)"
proof -
  have h: "state (example_operation ''DONE'') \<notin> {''PENDING'', ''RUNNING'', ''SUCCEEDED'', ''FAILED'', ''CANCELED''}"
    by (simp add: example_operation_def)
  from unknown_state_raises_KeyError[OF h] show ?thesis
    using h by (simp add: example_operation_def)
qed

subsection \<open>The dispatcher's decision\<close>

text \<open>
  C1. For an operation whose state is a member \<open>s\<close> of \<open>OperationState\<close> and a list
  \<open>ns\<close> of states to notify on: when \<open>s\<close> is not in \<open>ns\<close> the dispatcher returns \<open>None\<close>
  and leaves the effects untouched (no request is made); when \<open>s\<close> is in \<open>ns\<close> it is
  one call of \<open>send_email\<close>, whose exception or whose pair of message and response it
  hands on as they are: exactly one session is opened (one SSL context is created) and at
  most one message is submitted.
\<close>

theorem dispatcher_sends_iff_notified:
  assumes "OperationState_getitem (state operation) = Inr s"
  shows "(s \<notin> set ns \<longrightarrow> send_job_status_message E cfg operation (Some ns) st = (Inr None, st))
       \<and> (s \<in> set ns \<longrightarrow>
            send_job_status_message E cfg operation (Some ns) st =
              (case send_email E (get_details E operation)
                      (''Job '' @ resource_id operation @ '': '' @ format_state E s) cfg True st of
                 (Inl e, st1) \<Rightarrow> (Inl e, st1)
               | (Inr (message, response), st1) \<Rightarrow> (Inr (Some (message, response)), st1))
            \<and> (\<exists>new. calls (snd (send_job_status_message E cfg operation (Some ns) st)) = calls st @ new
                  \<and> length (filter (\<lambda>c. c = Create_default_context) new) = 1
                  \<and> length (filter is_sendmail new) \<le> 1))"
proof (intro conjI impI)
  assume "s \<notin> set ns"
  with assms show "send_job_status_message E cfg operation (Some ns) st = (Inr None, st)"
    by (simp add: send_job_status_message_def)
next
  assume n: "s \<in> set ns"
  show "send_job_status_message E cfg operation (Some ns) st =
              (case send_email E (get_details E operation)
                      (''Job '' @ resource_id operation @ '': '' @ format_state E s) cfg True st of
                 (Inl e, st1) \<Rightarrow> (Inl e, st1)
               | (Inr (message, response), st1) \<Rightarrow> (Inr (Some (message, response)), st1))"
    unfolding dispatch_notified[OF assms n] by (simp split: prod.splits sum.splits)
next
  assume n: "s \<in> set ns"
  let ?msg = "build_message E (get_details E operation)
      (''Job '' @ resource_id operation @ '': '' @ format_state E s) (sender_address cfg) (recipient_addresses cfg)"
  obtain new where new: "calls (snd (smtp_session (smtp E) cfg ?msg st)) = calls st @ Create_default_context # new"
     "Create_default_context \<notin> set new" "length (filter is_sendmail new) \<le> 1"
    using smtp_session_trace[of "smtp E" cfg ?msg st] by blast
  have "filter (\<lambda>c. c = Create_default_context) new = []"
    using new(2) by (auto simp: filter_empty_conv)
  with new show "\<exists>new. calls (snd (send_job_status_message E cfg operation (Some ns) st)) = calls st @ new
                  \<and> length (filter (\<lambda>c. c = Create_default_context) new) = 1
                  \<and> length (filter is_sendmail new) \<le> 1"
    by (simp add: dispatch_snd[OF assms n] send_email_calls)
qed

theorem dispatcher_sends_iff_notified_witness:
  "OperationState_getitem (state (example_operation ''SUCCEEDED'')) = Inr SUCCEEDED
   \<and> send_job_status_message (example_env (server_refusing [])) (example_cfg True)
        (example_operation ''SUCCEEDED'') (Some [FAILED, CANCELED]) io0 = (Inr None, io0)
   \<and> fst (send_job_status_message (example_env (server_refusing [])) (example_cfg True)
        (example_operation ''SUCCEEDED'') (Some [SUCCEEDED]) io0) =
        Inr (Some (''Job 17 is SUCCEEDED'', PyDict []))
   \<and> length (filter (\<lambda>c. c = Create_default_context)
        (calls (snd (send_job_status_message (example_env (server_refusing [])) (example_cfg True)
        (example_operation ''SUCCEEDED'') (Some [SUCCEEDED]) io0)))) = 1"
proof -
  have h: "OperationState_getitem (state (example_operation ''SUCCEEDED'')) = Inr SUCCEEDED"
    by (simp add: example_operation_def OperationState_getitem_def)
  have a: "send_job_status_message (example_env (server_refusing [])) (example_cfg True)
        (example_operation ''SUCCEEDED'') (Some [FAILED, CANCELED]) io0 = (Inr None, io0)"
    using dispatcher_sends_iff_notified[OF h, of "[FAILED, CANCELED]"] by simp
  have b: "send_job_status_message (example_env (server_refusing [])) (example_cfg True)
        (example_operation ''SUCCEEDED'') (Some [SUCCEEDED]) io0 =
        (Inr (Some (''Job 17 is SUCCEEDED'', PyDict [])),
         \<lparr>calls = [Create_default_context, SMTP_init ''smtp.a.org'' ''587'',
             Starttls None None PySSLContext, Login ''pipeline@a.org'' ''secret'',
             Sendmail ''pipeline@a.org'' [''x@b.org'', ''y@b.org'', ''z@b.org'']
               ''Subject: Job 17: OperationState.SUCCEEDED; From: pipeline@a.org; To: x@b.org, y@b.org, z@b.org; Job 17 is SUCCEEDED'',
             Exit], logged = []\<rparr>)"
    by (simp add: model_defs example_defs)
  show ?thesis using h a b by simp
qed

subsection \<open>\<open>None\<close> as \<open>notify_states\<close>\<close>

text \<open>
  C9. The dispatcher does not read \<open>None\<close> as "all states": called with
  \<open>notify_states = None\<close> it fails for every operation and makes no request. When the
  operation's state is a member of \<open>OperationState\<close>, the failure is the \<open>TypeError\<close> of
  the membership test; otherwise the lookup has failed before.
\<close>

theorem dispatcher_rejects_None:
  "(\<exists>e. send_job_status_message E cfg operation None st = (Inl e, st))
   \<and> (\<forall>s. OperationState_getitem (state operation) = Inr s \<longrightarrow>
         (\<exists>t. send_job_status_message E cfg operation None st = (Inl (TypeError t), st)))"
  by (cases "OperationState_getitem (state operation)")
     (simp_all add: send_job_status_message_def)

theorem dispatcher_rejects_None_witness:
  "OperationState_getitem (state (example_operation ''RUNNING'')) = Inr RUNNING
   \<and> (\<exists>t. send_job_status_message (example_env (server_refusing [])) (example_cfg True)
             (example_operation ''RUNNING'') None io0 = (Inl (TypeError t), io0))"
proof -
  have h: "OperationState_getitem (state (example_operation ''RUNNING'')) = Inr RUNNING"
    by (simp add: example_operation_def OperationState_getitem_def)
  with dispatcher_rejects_None[of "example_env (server_refusing [])" "example_cfg True"
         "example_operation ''RUNNING''" io0]
  show ?thesis by blast
qed

subsection \<open>Subject and body of the notification\<close>

text \<open>
  C6. For an operation whose state \<open>s\<close> is in \<open>notify_states\<close>, every message the
  dispatcher submits is the MIME rendering of the body \<open>get_details(operation)\<close> under the
  subject \<open>"Job "\<close>, the operation's resource id, \<open>": "\<close> and the formatted state \<open>s\<close>,
  from the configured sender to the configured recipients; and the message it returns is
  that body.
\<close>

theorem dispatcher_builds_subject_and_body:
  assumes "OperationState_getitem (state operation) = Inr s" and "s \<in> set ns"
  shows "\<exists>new. calls (snd (send_job_status_message E cfg operation (Some ns) st)) = calls st @ new
     \<and> (\<forall>a b m. Sendmail a b m \<in> set new \<longrightarrow>
           a = sender_address cfg \<and> b = recipient_addresses cfg \<and>
           m = mime_as_string E (get_details E operation)
                 [(''Subject'', ''Job '' @ resource_id operation @ '': '' @ format_state E s),
                  (''From'', sender_address cfg),
                  (''To'', join '', '' (recipient_addresses cfg))])
     \<and> (\<forall>message response.
           fst (send_job_status_message E cfg operation (Some ns) st) = Inr (Some (message, response))
           \<longrightarrow> message = get_details E operation)"
proof -
  let ?subject = "''Job '' @ resource_id operation @ '': '' @ format_state E s"
  let ?msg = "build_message E (get_details E operation) ?subject
                (sender_address cfg) (recipient_addresses cfg)"
  obtain new where new:
    "calls (snd (smtp_session (smtp E) cfg ?msg st)) = calls st @ Create_default_context # new"
    "\<forall>a b m. Sendmail a b m \<in> set new \<longrightarrow>
        a = sender_address cfg \<and> b = recipient_addresses cfg \<and> m = ?msg"
    using smtp_session_trace[of "smtp E" cfg ?msg st] by blast
  have c: "calls (snd (send_job_status_message E cfg operation (Some ns) st)) =
             calls st @ Create_default_context # new"
    unfolding dispatch_snd[OF assms] send_email_calls by (rule new(1))
  have m: "message = get_details E operation"
    if "fst (send_job_status_message E cfg operation (Some ns) st) = Inr (Some (message, response))"
    for message response
    using that unfolding dispatch_fst[OF assms] send_email_raising
    by (simp split: sum.splits)
  from c new(2) m show ?thesis
    by (intro exI[of _ "Create_default_context # new"]) (auto simp: build_message_def)
qed

theorem dispatcher_builds_subject_and_body_witness:
  "OperationState_getitem (state (example_operation ''FAILED'')) = Inr FAILED
   \<and> FAILED \<in> set [SUCCEEDED, FAILED]
   \<and> Sendmail ''pipeline@a.org'' [''x@b.org'', ''y@b.org'', ''z@b.org'']
        (mime_as_string (example_env (server_refusing [])) ''Job 17 is FAILED''
           [(''Subject'', ''Job 17: OperationState.FAILED''),
            (''From'', ''pipeline@a.org''),
            (''To'', ''x@b.org, y@b.org, z@b.org'')])
       \<in> set (calls (snd (send_job_status_message (example_env (server_refusing []))
             (example_cfg True) (example_operation ''FAILED'') (Some [SUCCEEDED, FAILED]) io0)))
   \<and> fst (send_job_status_message (example_env (server_refusing []))
             (example_cfg True) (example_operation ''FAILED'') (Some [SUCCEEDED, FAILED]) io0) =
       Inr (Some (''Job 17 is FAILED'', PyDict []))"
proof -
  let ?E = "example_env (server_refusing [])"
  let ?D = "send_job_status_message ?E (example_cfg True) (example_operation ''FAILED'')
              (Some [SUCCEEDED, FAILED]) io0"
  have h: "OperationState_getitem (state (example_operation ''FAILED'')) = Inr FAILED"
    by (simp add: example_operation_def OperationState_getitem_def)
  have n: "FAILED \<in> set [SUCCEEDED, FAILED]" by simp
  have run: "?D =
        (Inr (Some (''Job 17 is FAILED'', PyDict [])),
         \<lparr>calls = [Create_default_context, SMTP_init ''smtp.a.org'' ''587'',
             Starttls None None PySSLContext, Login ''pipeline@a.org'' ''secret'',
             Sendmail ''pipeline@a.org'' [''x@b.org'', ''y@b.org'', ''z@b.org'']
               ''Subject: Job 17: OperationState.FAILED; From: pipeline@a.org; To: x@b.org, y@b.org, z@b.org; Job 17 is FAILED'',
             Exit], logged = []\<rparr>)"
    by (simp add: model_defs example_defs)
  from dispatcher_builds_subject_and_body[OF h n, of ?E "example_cfg True" io0]
  obtain new where new: "calls (snd ?D) = calls io0 @ new"
    "\<forall>a b m. Sendmail a b m \<in> set new \<longrightarrow>
        m = mime_as_string ?E (get_details ?E (example_operation ''FAILED''))
              [(''Subject'', ''Job '' @ resource_id (example_operation ''FAILED'') @ '': '' @ format_state ?E FAILED),
               (''From'', sender_address (example_cfg True)),
               (''To'', join '', '' (recipient_addresses (example_cfg True)))]"
    by blast
  let ?m = "''Subject: Job 17: OperationState.FAILED; From: pipeline@a.org; To: x@b.org, y@b.org, z@b.org; Job 17 is FAILED''"
  from new(1) run have "Sendmail ''pipeline@a.org'' [''x@b.org'', ''y@b.org'', ''z@b.org''] ?m \<in> set new"
    by (auto simp: io0_def)
  with new(2) have "?m = mime_as_string ?E (get_details ?E (example_operation ''FAILED''))
              [(''Subject'', ''Job '' @ resource_id (example_operation ''FAILED'') @ '': '' @ format_state ?E FAILED),
               (''From'', sender_address (example_cfg True)),
               (''To'', join '', '' (recipient_addresses (example_cfg True)))]"
    by blast
  then have "?m = mime_as_string ?E ''Job 17 is FAILED''
           [(''Subject'', ''Job 17: OperationState.FAILED''),
            (''From'', ''pipeline@a.org''),
            (''To'', ''x@b.org, y@b.org, z@b.org'')]"
    by (simp add: example_defs)
  with run h n show ?thesis by simp
qed

subsection \<open>SMTP failures while monitoring\<close>

text \<open>
  \<open>send_email\<close> writes its log line exactly when it catches an \<open>SMTPException\<close>, before
  it decides between raising and suppressing. With \<open>raise_error\<close> true, as the dispatcher
  calls it, a call that has logged ends by raising the exception it logged; so do the
  dispatcher and, by induction on its rounds, the poller.
\<close>

lemma send_email_raise_logged:
  assumes "send_email E message subject_line cfg True st = (res, st')"
  shows "logged st' = logged st
       \<or> (\<exists>e. res = Inl e \<and> is_SMTPException e
               \<and> logged st' = logged st @ [''Error: '' @ str_exn e])"
proof -
  let ?msg = "build_message E message subject_line (sender_address cfg) (recipient_addresses cfg)"
  obtain r st1 where s: "smtp_session (smtp E) cfg ?msg st = (r, st1)"
    by (cases "smtp_session (smtp E) cfg ?msg st")
  with smtp_session_logged[of "smtp E" cfg ?msg st] have l: "logged st1 = logged st" by simp
  show ?thesis
  proof (cases r)
    case (Inr response)
    with assms s l show ?thesis by (simp add: send_email_def Let_def)
  next
    case (Inl e)
    with assms s l show ?thesis
      by (cases "is_SMTPException e") (auto simp: send_email_def Let_def)
  qed
qed

lemma dispatch_logged:
  assumes "send_job_status_message E cfg operation notify_states st = (res, st')"
  shows "logged st' = logged st
       \<or> (\<exists>e. res = Inl e \<and> is_SMTPException e
               \<and> logged st' = logged st @ [''Error: '' @ str_exn e])"
proof (cases "OperationState_getitem (state operation)")
  case (Inl e)
  with assms show ?thesis by (simp add: send_job_status_message_def)
next
  case s: (Inr s)
  show ?thesis
  proof (cases notify_states)
    case None
    with assms s show ?thesis by (simp add: send_job_status_message_def)
  next
    case (Some ns)
    show ?thesis
    proof (cases "s \<in> set ns")
      case False
      with assms s Some show ?thesis by (simp add: send_job_status_message_def)
    next
      case True
      obtain r st1 where e: "send_email E (get_details E operation)
             (''Job '' @ resource_id operation @ '': '' @ format_state E s) cfg True st = (r, st1)"
        by (cases "send_email E (get_details E operation)
             (''Job '' @ resource_id operation @ '': '' @ format_state E s) cfg True st")
      from assms have "st' = st1 \<and> (case r of Inl x \<Rightarrow> res = Inl x | Inr y \<Rightarrow> res = Inr (Some y))"
        unfolding Some dispatch_notified[OF s True] e by (auto split: sum.splits)
      with send_email_raise_logged[OF e] show ?thesis by (auto split: sum.splits)
    qed
  qed
qed

lemma monitor_loop_logged:
  "monitor_loop fuel (send_job_status_message E) svc cfg interval timeout ns i responses st
     = Some (res, st') \<Longrightarrow>
   logged (mail st') = logged (mail st)
   \<or> (\<exists>e. res = Inl e \<and> is_SMTPException e
           \<and> logged (mail st') = logged (mail st) @ [''Error: '' @ str_exn e])"
proof (induction fuel arbitrary: i responses st)
  case 0
  then show ?case by simp
next
  case (Suc fuel)
  show ?case
  proof (cases "OperationState_getitem (state (fetch svc i))")
    case (Inl e)
    with Suc.prems show ?thesis by simp
  next
    case s: (Inr s)
    obtain r m1 where d: "(if s \<in> set ns
                           then send_job_status_message E cfg (fetch svc i) (Some ns) (mail st)
                           else (Inr None, mail st)) = (r, m1)"
      by (cases "if s \<in> set ns
                           then send_job_status_message E cfg (fetch svc i) (Some ns) (mail st)
                           else (Inr None, mail st)")
    have dl: "logged m1 = logged (mail st)
       \<or> (\<exists>e. r = Inl e \<and> is_SMTPException e
               \<and> logged m1 = logged (mail st) @ [''Error: '' @ str_exn e])"
    proof (cases "s \<in> set ns")
      case True
      with d dispatch_logged[of E cfg "fetch svc i" "Some ns" "mail st" r m1] show ?thesis by simp
    next
      case False
      with d show ?thesis by simp
    qed
    show ?thesis
    proof (cases r)
      case (Inl e)
      with Suc.prems s d dl show ?thesis by (auto simp: Let_def)
    next
      case r: (Inr v)
      with dl have l: "logged m1 = logged (mail st)" by simp
      show ?thesis
      proof (cases "terminal s")
        case True
        with Suc.prems s d r l show ?thesis by (auto simp: Let_def)
      next
        case nt: False
        show ?thesis
        proof (cases timeout)
          case None
          with Suc.prems s d r nt
          have "monitor_loop fuel (send_job_status_message E) svc cfg interval timeout ns (Suc i)
                  (case v of None \<Rightarrow> responses | Some entry \<Rightarrow> responses @ [entry])
                  (st\<lparr>mail := m1, slept := slept st @ [interval]\<rparr>) = Some (res, st')"
            by (simp add: Let_def)
          from Suc.IH[OF this] l show ?thesis by simp
        next
          case (Some T)
          show ?thesis
          proof (cases "T < elapsed svc i")
            case True
            with Suc.prems s d r nt Some l show ?thesis by (auto simp: Let_def)
          next
            case False
            with Suc.prems s d r nt Some
            have "monitor_loop fuel (send_job_status_message E) svc cfg interval timeout ns (Suc i)
                  (case v of None \<Rightarrow> responses | Some entry \<Rightarrow> responses @ [entry])
                  (st\<lparr>mail := m1, slept := slept st @ [min interval (T - elapsed svc i)]\<rparr>)
                   = Some (res, st')"
              by (simp add: Let_def)
            from Suc.IH[OF this] l show ?thesis by simp
          qed
        qed
      qed
    qed
  qed
qed

lemmas monitor_defs = monitor_job_def monitor_job_common_def example_service_def monitor_io0_def
  all_states_def

text \<open>
  C10. The dispatcher calls \<open>send_email\<close> without \<open>raise_error\<close>, so with the default
  \<open>True\<close>. For an operation whose state is in \<open>notify_states\<close>: whenever the SMTP session
  of that call ends in an exception, the dispatcher raises this exception, and whenever the
  dispatcher returns a message with a response, the response is the value the session
  returned (the return value of \<open>sendmail\<close>), never the dict that the suppressing branch
  of \<open>send_email\<close> builds. For every call of the dispatcher, and for every run of
  \<open>monitor_job\<close> that ends: if an \<open>SMTPException\<close> was caught on the way (the log has
  grown), then exactly one was, and the call has ended by raising it. No caught
  \<open>SMTPException\<close> is ever followed by a normal return, which is what the suppressing
  branch would do.
\<close>

theorem smtp_failure_is_never_suppressed:
  "(OperationState_getitem (state operation) = Inr s \<and> s \<in> set ns \<longrightarrow>
      (\<forall>e. fst (smtp_session (smtp E) cfg
                  (build_message E (get_details E operation)
                     (''Job '' @ resource_id operation @ '': '' @ format_state E s)
                     (sender_address cfg) (recipient_addresses cfg)) st) = Inl e
            \<longrightarrow> fst (send_job_status_message E cfg operation (Some ns) st) = Inl e)
    \<and> (\<forall>message response.
            fst (send_job_status_message E cfg operation (Some ns) st) = Inr (Some (message, response))
            \<longrightarrow> fst (smtp_session (smtp E) cfg
                  (build_message E (get_details E operation)
                     (''Job '' @ resource_id operation @ '': '' @ format_state E s)
                     (sender_address cfg) (recipient_addresses cfg)) st) = Inr response))
   \<and> (\<forall>res st'. send_job_status_message E cfg operation notify_states st = (res, st') \<longrightarrow>
          logged st' = logged st
          \<or> (\<exists>e. res = Inl e \<and> is_SMTPException e
                  \<and> logged st' = logged st @ [''Error: '' @ str_exn e]))
   \<and> (\<forall>fuel res mst'.
          monitor_job fuel E svc cfg poll_interval_seconds timeout_seconds monitor_states mst
            = Some (res, mst') \<longrightarrow>
          logged (mail mst') = logged (mail mst)
          \<or> (\<exists>e. res = Inl e \<and> is_SMTPException e
                  \<and> logged (mail mst') = logged (mail mst) @ [''Error: '' @ str_exn e]))"
proof (intro conjI impI allI)
  fix e
  assume a: "OperationState_getitem (state operation) = Inr s \<and> s \<in> set ns"
    and "fst (smtp_session (smtp E) cfg
                  (build_message E (get_details E operation)
                     (''Job '' @ resource_id operation @ '': '' @ format_state E s)
                     (sender_address cfg) (recipient_addresses cfg)) st) = Inl e"
  then show "fst (send_job_status_message E cfg operation (Some ns) st) = Inl e"
    using dispatch_fst[of operation s ns E cfg st] by (simp add: send_email_raising)
next
  fix message response
  assume a: "OperationState_getitem (state operation) = Inr s \<and> s \<in> set ns"
    and "fst (send_job_status_message E cfg operation (Some ns) st) = Inr (Some (message, response))"
  then show "fst (smtp_session (smtp E) cfg
                  (build_message E (get_details E operation)
                     (''Job '' @ resource_id operation @ '': '' @ format_state E s)
                     (sender_address cfg) (recipient_addresses cfg)) st) = Inr response"
    using dispatch_fst[of operation s ns E cfg st]
    by (simp add: send_email_raising split: sum.splits)
next
  fix res st'
  assume "send_job_status_message E cfg operation notify_states st = (res, st')"
  then show "logged st' = logged st
          \<or> (\<exists>e. res = Inl e \<and> is_SMTPException e
                  \<and> logged st' = logged st @ [''Error: '' @ str_exn e])"
    by (rule dispatch_logged)
next
  fix fuel res mst'
  assume "monitor_job fuel E svc cfg poll_interval_seconds timeout_seconds monitor_states mst
            = Some (res, mst')"
  then show "logged (mail mst') = logged (mail mst)
          \<or> (\<exists>e. res = Inl e \<and> is_SMTPException e
                  \<and> logged (mail mst') = logged (mail mst) @ [''Error: '' @ str_exn e])"
    unfolding monitor_job_def monitor_job_common_def by (rule monitor_loop_logged)
qed

theorem smtp_failure_is_never_suppressed_witness:
  "OperationState_getitem (state (example_operation ''RUNNING'')) = Inr RUNNING
   \<and> RUNNING \<in> set [RUNNING]
   \<and> fst (smtp_session server_rejecting_login (example_cfg False)
            (build_message (example_env server_rejecting_login) ''Job 17 is RUNNING''
               ''Job 17: OperationState.RUNNING'' ''pipeline@a.org'' [''x@b.org'', ''y@b.org'', ''z@b.org''])
            io0) = Inl (SMTPException ''535 authentication failed'')
   \<and> fst (send_job_status_message (example_env server_rejecting_login) (example_cfg False)
            (example_operation ''RUNNING'') (Some [RUNNING]) io0) =
       Inl (SMTPException ''535 authentication failed'')
   \<and> monitor_job 3 (example_env server_rejecting_login) example_service (example_cfg False)
          5 None None monitor_io0 =
       Some (Inl (SMTPException ''535 authentication failed''),
             \<lparr>mail = \<lparr>calls = [Create_default_context,
                               SMTP_SSL_init ''smtp.a.org'' ''587'' None None PySSLContext,
                               Login ''pipeline@a.org'' ''secret'', Exit],
                      logged = [''Error: 535 authentication failed'']\<rparr>,
              slept = []\<rparr>)
   \<and> (\<exists>e. is_SMTPException e
          \<and> [''Error: 535 authentication failed''] =
             logged (mail monitor_io0) @ [''Error: '' @ str_exn e])"
proof -
  let ?E = "example_env server_rejecting_login"
  let ?e = "SMTPException ''535 authentication failed''"
  let ?st' = "\<lparr>mail = \<lparr>calls = [Create_default_context,
                               SMTP_SSL_init ''smtp.a.org'' ''587'' None None PySSLContext,
                               Login ''pipeline@a.org'' ''secret'', Exit],
                      logged = [''Error: 535 authentication failed'']\<rparr>,
              slept = []\<rparr>"
  have h: "OperationState_getitem (state (example_operation ''RUNNING'')) = Inr RUNNING"
    by (simp add: example_operation_def OperationState_getitem_def)
  have n: "RUNNING \<in> set [RUNNING]" by simp
  have s: "fst (smtp_session (smtp ?E) (example_cfg False)
             (build_message ?E (get_details ?E (example_operation ''RUNNING''))
                (''Job '' @ resource_id (example_operation ''RUNNING'') @ '': '' @ format_state ?E RUNNING)
                (sender_address (example_cfg False)) (recipient_addresses (example_cfg False))) io0) =
           Inl ?e"
    by (simp add: model_defs example_defs)
  have s': "fst (smtp_session server_rejecting_login (example_cfg False)
            (build_message ?E ''Job 17 is RUNNING''
               ''Job 17: OperationState.RUNNING'' ''pipeline@a.org'' [''x@b.org'', ''y@b.org'', ''z@b.org''])
            io0) = Inl ?e"
    by (simp add: model_defs example_defs)
  have m: "monitor_job 3 ?E example_service (example_cfg False) 5 None None monitor_io0
             = Some (Inl ?e, ?st')"
    by (simp add: numeral_3_eq_3 monitor_defs model_defs example_defs)
  note t = smtp_failure_is_never_suppressed[of "example_operation ''RUNNING''" RUNNING "[RUNNING]"
             ?E "example_cfg False" io0 "Some [RUNNING]" example_service 5 None None monitor_io0]
  from t h n s
  have d: "fst (send_job_status_message ?E (example_cfg False)
            (example_operation ''RUNNING'') (Some [RUNNING]) io0) = Inl ?e"
    by blast
  from t m
  have "logged (mail ?st') = logged (mail monitor_io0)
      \<or> (\<exists>e. Inl ?e = (Inl e :: exn + (string \<times> pyval) list) \<and> is_SMTPException e
            \<and> logged (mail ?st') = logged (mail monitor_io0) @ [''Error: '' @ str_exn e])"
    by blast
  then have l: "\<exists>e. is_SMTPException e
          \<and> [''Error: 535 authentication failed''] =
             logged (mail monitor_io0) @ [''Error: '' @ str_exn e]"
    by (intro exI[of _ ?e]) (simp add: monitor_io0_def io0_def)
  from h n s' d m l show ?thesis by (intro conjI)
qed

subsection \<open>Plaintext with STARTTLS, or SMTP over SSL\<close>

text \<open>
  The requests of \<open>send_email\<close>. Every call first creates the default SSL context. If
  that fails, nothing else is requested. Otherwise, with \<open>use_tls\<close> the next request is
  the plaintext connection \<open>SMTP(smtp_server, smtp_port)\<close> and, once it stands,
  \<open>starttls(keyfile, certfile, context)\<close> on it; without \<open>use_tls\<close> the next request is
  \<open>SMTP_SSL(smtp_server, smtp_port, keyfile, certfile, context)\<close>. In both cases no
  further request opens or upgrades a connection.
\<close>

lemma send_email_requests:
  "\<exists>new. calls (snd (send_email E message subject_line cfg raise_error st)) =
            calls st @ Create_default_context # new
     \<and> (case smtp E (calls st) Create_default_context of
          Inl e \<Rightarrow> new = []
        | Inr context \<Rightarrow>
            if use_tls cfg then
              (case smtp E (calls st @ [Create_default_context])
                      (SMTP_init (smtp_server cfg) (smtp_port cfg)) of
                 Inl e \<Rightarrow> new = [SMTP_init (smtp_server cfg) (smtp_port cfg)]
               | Inr v' \<Rightarrow>
                   \<exists>rest. new = SMTP_init (smtp_server cfg) (smtp_port cfg)
                                 # Starttls (keyfile cfg) (certfile cfg) context # rest
                          \<and> \<not> list_ex connects rest)
            else
              (\<exists>rest. new = SMTP_SSL_init (smtp_server cfg) (smtp_port cfg) (keyfile cfg) (certfile cfg)
                               context # rest
                      \<and> \<not> list_ex connects rest))"
proof -
  let ?msg = "build_message E message subject_line (sender_address cfg) (recipient_addresses cfg)"
  have "\<exists>new. calls (snd (smtp_session (smtp E) cfg ?msg st)) =
            calls st @ Create_default_context # new
     \<and> (case smtp E (calls st) Create_default_context of
          Inl e \<Rightarrow> new = []
        | Inr context \<Rightarrow>
            if use_tls cfg then
              (case smtp E (calls st @ [Create_default_context])
                      (SMTP_init (smtp_server cfg) (smtp_port cfg)) of
                 Inl e \<Rightarrow> new = [SMTP_init (smtp_server cfg) (smtp_port cfg)]
               | Inr v' \<Rightarrow>
                   \<exists>rest. new = SMTP_init (smtp_server cfg) (smtp_port cfg)
                                 # Starttls (keyfile cfg) (certfile cfg) context # rest
                          \<and> \<not> list_ex connects rest)
            else
              (\<exists>rest. new = SMTP_SSL_init (smtp_server cfg) (smtp_port cfg) (keyfile cfg) (certfile cfg)
                               context # rest
                      \<and> \<not> list_ex connects rest))"
  proof (cases rule: smtp_session_cases[of "smtp E" st cfg ?msg])
    case (context_raises e)
    then show ?thesis by simp
  next
    case (connect_raises v e)
    then show ?thesis by (cases "use_tls cfg") (simp_all add: connect_request_def)
  next
    case (exit_raises v v' r st3 e)
    with with_body_trace[of "smtp E" cfg v ?msg
           "st\<lparr>calls := calls st @ [Create_default_context, connect_request cfg v]\<rparr>"]
    show ?thesis by (cases "use_tls cfg") (auto simp: connect_request_def)
  next
    case (exit_returns v v' r st3 v'')
    with with_body_trace[of "smtp E" cfg v ?msg
           "st\<lparr>calls := calls st @ [Create_default_context, connect_request cfg v]\<rparr>"]
    show ?thesis by (cases "use_tls cfg") (auto simp: connect_request_def)
  qed
  then show ?thesis
    unfolding send_email_calls .
qed

text \<open>
  Behind smtplib's check of its arguments, on a layer whose context creation returns a
  context, settings with a keyfile or a certfile never get as far as a login: no message
  is submitted, whatever \<open>use_tls\<close> and \<open>raise_error\<close> are.
\<close>

lemma key_material_is_refused:
  assumes "keyfile cfg \<noteq> None \<or> certfile cfg \<noteq> None"
      and "\<forall>h v. lib h Create_default_context = Inr v \<longrightarrow> v \<noteq> PyNone"
      and "smtp E = checking_arguments lib"
  shows "\<exists>new. calls (snd (send_email E message subject_line cfg raise_error st)) = calls st @ new
           \<and> \<not> list_ex is_sendmail new
           \<and> (\<forall>a p. Login a p \<notin> set new)"
proof -
  let ?msg = "build_message E message subject_line (sender_address cfg) (recipient_addresses cfg)"
  have refused: "\<exists>e. checking_arguments lib h (Starttls (keyfile cfg) (certfile cfg) v) = Inl e"
       "\<exists>e. checking_arguments lib h (SMTP_SSL_init a p (keyfile cfg) (certfile cfg) v) = Inl e"
    if "v \<noteq> PyNone" for h v a p
    using that assms(1) by (auto simp: checking_arguments_def mutually_exclusive_def)
  have ctx: "v \<noteq> PyNone" if "checking_arguments lib h Create_default_context = Inr v" for h v
    using that assms(2) by (simp add: checking_arguments_def)
  have "\<exists>new. calls (snd (smtp_session (checking_arguments lib) cfg ?msg st)) = calls st @ new
           \<and> \<not> list_ex is_sendmail new
           \<and> (\<forall>a p. Login a p \<notin> set new)"
  proof (cases rule: smtp_session_cases[of "checking_arguments lib" st cfg ?msg])
    case (context_raises e)
    then show ?thesis by simp
  next
    case (connect_raises v e)
    then show ?thesis by (cases "use_tls cfg") (simp_all add: connect_request_def)
  next
    case (exit_raises v v' r st3 e)
    from ctx[OF exit_raises(1)] have v: "v \<noteq> PyNone" .
    show ?thesis
    proof (cases "use_tls cfg")
      case True
      from refused(1)[OF v] obtain e' where
        "checking_arguments lib (calls st @ [Create_default_context, connect_request cfg v])
           (Starttls (keyfile cfg) (certfile cfg) v) = Inl e'" by blast
      with True exit_raises show ?thesis
        by (auto simp: with_body_def smtp_call_def connect_request_def)
    next
      case False
      with refused(2)[OF v, of "calls st @ [Create_default_context]" "smtp_server cfg" "smtp_port cfg"]
        exit_raises(2) show ?thesis
        by (auto simp: connect_request_def)
    qed
  next
    case (exit_returns v v' r st3 v'')
    from ctx[OF exit_returns(1)] have v: "v \<noteq> PyNone" .
    show ?thesis
    proof (cases "use_tls cfg")
      case True
      from refused(1)[OF v] obtain e' where
        "checking_arguments lib (calls st @ [Create_default_context, connect_request cfg v])
           (Starttls (keyfile cfg) (certfile cfg) v) = Inl e'" by blast
      with True exit_returns show ?thesis
        by (auto simp: with_body_def smtp_call_def connect_request_def)
    next
      case False
      with refused(2)[OF v, of "calls st @ [Create_default_context]" "smtp_server cfg" "smtp_port cfg"]
        exit_returns(2) show ?thesis
        by (auto simp: connect_request_def)
    qed
  qed
  then show ?thesis
    unfolding send_email_calls assms(3) .
qed

text \<open>
  C7. With a keyfile in the settings the connection is never made secure. The SMTP layer
  here is one on which every call returns, behind smtplib's check of its arguments. With
  \<open>use_tls\<close>, the plaintext connection is opened, \<open>starttls\<close> is called with the keyfile
  and the context and raises the \<open>ValueError\<close> of that check; without \<open>use_tls\<close>,
  \<open>SMTP_SSL\<close> raises it before any connection. In both cases \<open>send_email\<close> raises the
  \<open>ValueError\<close>, also with \<open>raise_error\<close> false, and neither logs in nor submits the
  message. The same call without key material upgrades the connection and delivers.
\<close>

theorem send_email_with_keyfile_raises:
  "send_email (example_env (checking_arguments (server_refusing []))) ''hello'' ''status''
       (example_cfg_with_key True) True io0 =
     (Inl (ValueError ''context and keyfile arguments are mutually exclusive''),
      \<lparr>calls = [Create_default_context, SMTP_init ''smtp.a.org'' ''587'',
                Starttls (Some ''key.pem'') None PySSLContext, Exit],
       logged = []\<rparr>)
   \<and> send_email (example_env (checking_arguments (server_refusing []))) ''hello'' ''status''
       (example_cfg_with_key True) False io0 =
     (Inl (ValueError ''context and keyfile arguments are mutually exclusive''),
      \<lparr>calls = [Create_default_context, SMTP_init ''smtp.a.org'' ''587'',
                Starttls (Some ''key.pem'') None PySSLContext, Exit],
       logged = []\<rparr>)
   \<and> send_email (example_env (checking_arguments (server_refusing []))) ''hello'' ''status''
       (example_cfg_with_key False) True io0 =
     (Inl (ValueError ''context and keyfile arguments are mutually exclusive''),
      \<lparr>calls = [Create_default_context,
                SMTP_SSL_init ''smtp.a.org'' ''587'' (Some ''key.pem'') None PySSLContext],
       logged = []\<rparr>)
   \<and> fst (send_email (example_env (checking_arguments (server_refusing []))) ''hello'' ''status''
       (example_cfg True) True io0) = Inr (''hello'', PyDict [])
   \<and> calls (snd (send_email (example_env (checking_arguments (server_refusing []))) ''hello''
       ''status'' (example_cfg True) True io0)) =
     [Create_default_context, SMTP_init ''smtp.a.org'' ''587'', Starttls None None PySSLContext,
      Login ''pipeline@a.org'' ''secret'',
      Sendmail ''pipeline@a.org'' [''x@b.org'', ''y@b.org'', ''z@b.org'']
        ''Subject: status; From: pipeline@a.org; To: x@b.org, y@b.org, z@b.org; hello'',
      Exit]"
  by (simp add: model_defs example_defs example_cfg_with_key_def checking_arguments_def
        mutually_exclusive_def)

subsection \<open>A failing SMTP session\<close>

text \<open>
  C4 (as amended). When the SMTP session of a \<open>send_email\<close> call ends in an
  \<open>SMTPException\<close> \<open>e\<close>, the exception is logged, and then: with \<open>raise_error\<close> true,
  \<open>e\<close> is raised to the caller; with \<open>raise_error\<close> false, \<open>send_email\<close> returns the
  message and, in place of the refusal mapping, the dict with exactly the entries
  \<open>"type"\<close> = \<open>"SMTPException"\<close>, \<open>"text"\<close> = \<open>The email: "<message>" failed to send.\<close>
  and \<open>"error"\<close> = \<open>e\<close>.
\<close>

theorem send_email_smtp_failure:
  assumes "smtp_session (smtp E) cfg
             (build_message E message subject_line (sender_address cfg) (recipient_addresses cfg)) st =
           (Inl e, st1)"
      and "is_SMTPException e"
  shows "send_email E message subject_line cfg raise_error st =
           (if raise_error then Inl e
            else Inr (message,
                      PyDict [(''type'', PyStr ''SMTPException''),
                              (''text'', PyStr (''The email: '' @ [CHR 0x22] @ message @ [CHR 0x22]
                                                 @ '' failed to send.'')),
                              (''error'', PyExc e)]),
            st1\<lparr>logged := logged st1 @ [''Error: '' @ str_exn e]\<rparr>)"
  using assms by (simp add: send_email_def failure_descriptor_def Let_def)

theorem send_email_smtp_failure_witness:
  "smtp_session (smtp (example_env server_rejecting_login)) (example_cfg True)
     (build_message (example_env server_rejecting_login) ''hello'' ''status''
        (sender_address (example_cfg True)) (recipient_addresses (example_cfg True))) io0 =
     (Inl (SMTPException ''535 authentication failed''),
      \<lparr>calls = [Create_default_context, SMTP_init ''smtp.a.org'' ''587'',
                Starttls None None PySSLContext, Login ''pipeline@a.org'' ''secret'', Exit],
       logged = []\<rparr>)
   \<and> is_SMTPException (SMTPException ''535 authentication failed'')
   \<and> fst (send_email (example_env server_rejecting_login) ''hello'' ''status'' (example_cfg True) True io0) =
       Inl (SMTPException ''535 authentication failed'')
   \<and> fst (send_email (example_env server_rejecting_login) ''hello'' ''status'' (example_cfg True) False io0) =
       Inr (''hello'',
            PyDict [(''type'', PyStr ''SMTPException''),
                    (''text'', PyStr (''The email: '' @ [CHR 0x22] @ ''hello'' @ [CHR 0x22]
                                       @ '' failed to send.'')),
                    (''error'', PyExc (SMTPException ''535 authentication failed''))])
   \<and> logged (snd (send_email (example_env server_rejecting_login) ''hello'' ''status''
                     (example_cfg True) False io0)) = [''Error: 535 authentication failed'']"
proof -
  let ?E = "example_env server_rejecting_login"
  have s: "smtp_session (smtp ?E) (example_cfg True)
     (build_message ?E ''hello'' ''status''
        (sender_address (example_cfg True)) (recipient_addresses (example_cfg True))) io0 =
     (Inl (SMTPException ''535 authentication failed''),
      \<lparr>calls = [Create_default_context, SMTP_init ''smtp.a.org'' ''587'',
                Starttls None None PySSLContext, Login ''pipeline@a.org'' ''secret'', Exit],
       logged = []\<rparr>)"
    by (simp add: model_defs example_defs)
  have i: "is_SMTPException (SMTPException ''535 authentication failed'')" by simp
  show ?thesis
    using s i send_email_smtp_failure[OF s i, of True] send_email_smtp_failure[OF s i, of False]
    by simp
qed

text \<open>
  The descriptor has the keys \<open>type\<close>, \<open>text\<close> and \<open>error\<close> and the tag
  \<open>SMTPException\<close>: on a server that rejects the login, what \<open>send_email\<close> returns with
  \<open>raise_error\<close> false is not a dict of the shape \<open>{kind: "TransportException", text,
  cause}\<close>.
\<close>

theorem send_email_descriptor_counterexample:
  "fst (send_email (example_env server_rejecting_login) ''hello'' ''status'' (example_cfg True) False io0) =
     Inr (''hello'',
          PyDict [(''type'', PyStr ''SMTPException''),
                  (''text'', PyStr (''The email: '' @ [CHR 0x22] @ ''hello'' @ [CHR 0x22]
                                     @ '' failed to send.'')),
                  (''error'', PyExc (SMTPException ''535 authentication failed''))])
   \<and> fst (send_email (example_env server_rejecting_login) ''hello'' ''status'' (example_cfg True) False io0) \<noteq>
     Inr (''hello'',
          PyDict [(''kind'', PyStr ''TransportException''),
                  (''text'', PyStr (''The email: '' @ [CHR 0x22] @ ''hello'' @ [CHR 0x22]
                                     @ '' failed to send.'')),
                  (''cause'', PyExc (SMTPException ''535 authentication failed''))])"
  by (simp add: model_defs example_defs)

subsection \<open>The refusal mapping\<close>








subsection \<open>Calling the dispatcher twice\<close>

text \<open>
  When the SMTP layer answers a request without regard to the requests made before, a
  session started in any state of the trace runs as the session started on the empty one.
\<close>

lemma with_body_replay:
  assumes "\<forall>h c. lib h c = f c"
  shows "with_body lib cfg ctx msg st =
           (fst (with_body lib cfg ctx msg io0),
            st\<lparr>calls := calls st @ calls (snd (with_body lib cfg ctx msg io0))\<rparr>)"
  by (cases "use_tls cfg";
      cases "f (Starttls (keyfile cfg) (certfile cfg) ctx)";
      cases "f (Login (sender_address cfg) (sender_password cfg))")
     (simp_all add: with_body_def smtp_call_def io0_def assms)

lemma smtp_session_replay:
  assumes "\<forall>h c. lib h c = f c"
  shows "smtp_session lib cfg msg st =
           (fst (smtp_session lib cfg msg io0),
            st\<lparr>calls := calls st @ calls (snd (smtp_session lib cfg msg io0))\<rparr>)"
proof (cases "f Create_default_context")
  case (Inl e)
  then show ?thesis
    by (simp add: smtp_session_def smtp_call_def io0_def assms)
next
  case (Inr ctx)
  let ?W = "with_body lib cfg ctx msg io0"
  let ?tls = "SMTP_init (smtp_server cfg) (smtp_port cfg)"
  let ?ssl = "SMTP_SSL_init (smtp_server cfg) (smtp_port cfg) (keyfile cfg) (certfile cfg) ctx"
  have w: "with_body lib cfg ctx msg X = (fst ?W, X\<lparr>calls := calls X @ calls (snd ?W)\<rparr>)" for X
    by (rule with_body_replay[OF assms])
  show ?thesis
    by (cases "f ?tls"; cases "f ?ssl"; cases "f Exit"; cases "use_tls cfg")
       (simp_all add: smtp_session_def smtp_call_def io0_def assms Inr
          w[of "st\<lparr>calls := calls st @ [Create_default_context, ?tls]\<rparr>"]
          w[of "st\<lparr>calls := calls st @ [Create_default_context, ?ssl]\<rparr>"]
          w[of "\<lparr>calls = [Create_default_context, ?tls], logged = []\<rparr>"]
          w[of "\<lparr>calls = [Create_default_context, ?ssl], logged = []\<rparr>"])
qed

text \<open>
  On an SMTP layer that never raises, a session runs to its end and submits exactly one
  message, the one it was given.
\<close>

lemma with_body_completes:
  assumes "\<forall>h c. \<exists>v. lib h c = Inr v"
  shows "\<exists>r new. with_body lib cfg ctx msg st = (Inr r, st\<lparr>calls := calls st @ new\<rparr>)
           \<and> filter is_sendmail new =
               [Sendmail (sender_address cfg) (recipient_addresses cfg) msg]"
proof -
  obtain v1 where v1: "lib (calls st) (Starttls (keyfile cfg) (certfile cfg) ctx) = Inr v1"
    using assms by blast
  obtain v2 where v2: "lib (calls st) (Login (sender_address cfg) (sender_password cfg)) = Inr v2"
    using assms by blast
  obtain v3 where v3: "lib (calls st @ [Starttls (keyfile cfg) (certfile cfg) ctx])
                          (Login (sender_address cfg) (sender_password cfg)) = Inr v3"
    using assms by blast
  obtain v4 where v4: "lib (calls st @ [Login (sender_address cfg) (sender_password cfg)])
                          (Sendmail (sender_address cfg) (recipient_addresses cfg) msg) = Inr v4"
    using assms by blast
  obtain v5 where v5: "lib (calls st @ [Starttls (keyfile cfg) (certfile cfg) ctx,
                                        Login (sender_address cfg) (sender_password cfg)])
                          (Sendmail (sender_address cfg) (recipient_addresses cfg) msg) = Inr v5"
    using assms by blast
  show ?thesis
  proof (cases "use_tls cfg")
    case True
    then have "with_body lib cfg ctx msg st =
      (Inr v5, st\<lparr>calls := calls st @ [Starttls (keyfile cfg) (certfile cfg) ctx,
                                        Login (sender_address cfg) (sender_password cfg),
                                        Sendmail (sender_address cfg) (recipient_addresses cfg) msg]\<rparr>)"
      by (simp add: with_body_def smtp_call_def v1 v3 v5)
    then show ?thesis by (intro exI conjI) (assumption, simp)
  next
    case False
    then have "with_body lib cfg ctx msg st =
      (Inr v4, st\<lparr>calls := calls st @ [Login (sender_address cfg) (sender_password cfg),
                                        Sendmail (sender_address cfg) (recipient_addresses cfg) msg]\<rparr>)"
      by (simp add: with_body_def smtp_call_def v2 v4)
    then show ?thesis by (intro exI conjI) (assumption, simp)
  qed
qed

lemma smtp_session_completes:
  assumes "\<forall>h c. \<exists>v. lib h c = Inr v"
  shows "\<exists>r new. fst (smtp_session lib cfg msg st) = Inr r
           \<and> calls (snd (smtp_session lib cfg msg st)) = calls st @ new
           \<and> filter is_sendmail new =
               [Sendmail (sender_address cfg) (recipient_addresses cfg) msg]"
proof (cases rule: smtp_session_cases[of lib st cfg msg])
  case (context_raises e)
  with assms show ?thesis by (metis sum.distinct(1))
next
  case (connect_raises v e)
  with assms show ?thesis by (metis sum.distinct(1))
next
  case (exit_raises v v' r st3 e)
  with assms show ?thesis by (metis sum.distinct(1))
next
  case (exit_returns v v' r st3 v'')
  from with_body_completes[OF assms, of cfg v msg
         "st\<lparr>calls := calls st @ [Create_default_context, connect_request cfg v]\<rparr>"]
  obtain r' new where
    "with_body lib cfg v msg (st\<lparr>calls := calls st @ [Create_default_context, connect_request cfg v]\<rparr>)
       = (Inr r', st\<lparr>calls := calls st @ [Create_default_context, connect_request cfg v]\<rparr>
                    \<lparr>calls := calls (st\<lparr>calls := calls st @ [Create_default_context, connect_request cfg v]\<rparr>) @ new\<rparr>)"
    "filter is_sendmail new = [Sendmail (sender_address cfg) (recipient_addresses cfg) msg]"
    by blast
  with exit_returns show ?thesis
    by (intro exI[of _ r'] exI[of _ "[Create_default_context, connect_request cfg v] @ new @ [Exit]"])
       (auto simp: connect_request_def)
qed

text \<open>
  C8. Two calls of the dispatcher in a row, on the same operation snapshot (its state in
  \<open>notify_states\<close>) with the same \<open>notify_states\<close>, are two sends. The second call is a
  call of \<open>send_email\<close> in its own right, on the state the first call left, whose result
  it hands on: the dispatcher remembers nothing of the first call. Each call opens a
  session of its own, starting with the creation of an SSL context. When the SMTP layer
  answers the same way each time, the second call makes the requests the first made and
  returns what the first returned. When no call into the SMTP layer raises, each of the
  two calls submits the notification once (two \<open>sendmail\<close> requests in all) and each
  returns the message with the response of its own \<open>sendmail\<close>.
\<close>

theorem dispatcher_sends_again:
  fixes E :: "'x env" and cfg operation ns s D subject msg
  defines "D \<equiv> send_job_status_message E cfg operation (Some ns)"
      and "subject \<equiv> ''Job '' @ resource_id operation @ '': '' @ format_state E s"
      and "msg \<equiv> build_message E (get_details E operation) subject
                    (sender_address cfg) (recipient_addresses cfg)"
  assumes "OperationState_getitem (state operation) = Inr s" and "s \<in> set ns"
  shows "D (snd (D st)) =
           (case send_email E (get_details E operation) subject cfg True (snd (D st)) of
              (Inl e, st2) \<Rightarrow> (Inl e, st2)
            | (Inr (message, response), st2) \<Rightarrow> (Inr (Some (message, response)), st2))
       \<and> (\<exists>new1 new2.
             calls (snd (D st)) = calls st @ Create_default_context # new1
           \<and> calls (snd (D (snd (D st)))) = calls (snd (D st)) @ Create_default_context # new2
           \<and> Create_default_context \<notin> set new1 \<and> Create_default_context \<notin> set new2
           \<and> ((\<forall>h h' c. smtp E h c = smtp E h' c) \<longrightarrow>
                 new2 = new1 \<and> fst (D (snd (D st))) = fst (D st))
           \<and> ((\<forall>h c. \<exists>v. smtp E h c = Inr v) \<longrightarrow>
                 filter is_sendmail new1 =
                   [Sendmail (sender_address cfg) (recipient_addresses cfg) msg]
               \<and> filter is_sendmail new2 =
                   [Sendmail (sender_address cfg) (recipient_addresses cfg) msg]
               \<and> (\<exists>r1 r2. fst (D st) = Inr (Some (get_details E operation, r1))
                         \<and> fst (D (snd (D st))) = Inr (Some (get_details E operation, r2)))))"
proof (intro conjI)
  show "D (snd (D st)) =
           (case send_email E (get_details E operation) subject cfg True (snd (D st)) of
              (Inl e, st2) \<Rightarrow> (Inl e, st2)
            | (Inr (message, response), st2) \<Rightarrow> (Inr (Some (message, response)), st2))"
    unfolding D_def subject_def dispatch_notified[OF assms(4,5)]
    by (simp split: prod.splits sum.splits)
next
  let ?S = "smtp_session (smtp E) cfg msg"
  have calls_D: "calls (snd (D X)) = calls (snd (?S X))" for X
    unfolding D_def msg_def subject_def dispatch_snd[OF assms(4,5)] send_email_calls ..
  have fst_D: "fst (D X) = (case fst (?S X) of Inl e \<Rightarrow> Inl e
                            | Inr response \<Rightarrow> Inr (Some (get_details E operation, response)))" for X
    unfolding D_def msg_def subject_def dispatch_fst[OF assms(4,5)] send_email_raising
    by (simp split: sum.splits)
  obtain new1 where new1: "calls (snd (?S st)) = calls st @ Create_default_context # new1"
      "Create_default_context \<notin> set new1"
    using smtp_session_trace[of "smtp E" cfg msg st] by blast
  obtain new2 where new2:
      "calls (snd (?S (snd (D st)))) = calls (snd (D st)) @ Create_default_context # new2"
      "Create_default_context \<notin> set new2"
    using smtp_session_trace[of "smtp E" cfg msg "snd (D st)"] by blast
  have same: "new2 = new1 \<and> fst (D (snd (D st))) = fst (D st)"
    if indep: "\<forall>h h' c. smtp E h c = smtp E h' c"
  proof -
    from indep have f: "\<forall>h c. smtp E h c = smtp E [] c" by blast
    note r = smtp_session_replay[of "smtp E" "smtp E []" cfg msg, OF f]
    have a0: "calls (snd (?S X)) = calls X @ calls (snd (?S io0))" for X
      using arg_cong[OF r[of X], of "\<lambda>p. calls (snd p)"] by simp
    note a = a0[of st] and b = a0[of "snd (D st)"]
    have c0: "fst (?S X) = fst (?S io0)" for X
      using arg_cong[OF r[of X], of fst] by simp
    have c: "fst (?S (snd (D st))) = fst (?S st)"
      using c0[of "snd (D st)"] c0[of st] by simp
    have "Create_default_context # new1 = calls (snd (?S io0))"
      using a new1(1) by simp
    moreover have "Create_default_context # new2 = calls (snd (?S io0))"
      using b new2(1) by simp
    ultimately have "Create_default_context # new2 = Create_default_context # new1"
      by simp
    then have "new2 = new1" by simp
    with c show ?thesis by (simp add: fst_D)
  qed
  have sends: "filter is_sendmail new1 = [Sendmail (sender_address cfg) (recipient_addresses cfg) msg]
               \<and> filter is_sendmail new2 = [Sendmail (sender_address cfg) (recipient_addresses cfg) msg]
               \<and> (\<exists>r1 r2. fst (D st) = Inr (Some (get_details E operation, r1))
                         \<and> fst (D (snd (D st))) = Inr (Some (get_details E operation, r2)))"
    if ok: "\<forall>h c. \<exists>v. smtp E h c = Inr v"
  proof -
    have one: "\<exists>r. fst (?S X) = Inr r" 
      "calls (snd (?S X)) = calls X @ Create_default_context # new \<Longrightarrow>
         filter is_sendmail new = [Sendmail (sender_address cfg) (recipient_addresses cfg) msg]"
      for X new
    proof -
      from smtp_session_completes[OF ok, of cfg msg X] obtain r nw where
        c: "fst (?S X) = Inr r" "calls (snd (?S X)) = calls X @ nw"
           "filter is_sendmail nw = [Sendmail (sender_address cfg) (recipient_addresses cfg) msg]"
        by blast
      from c(1) show "\<exists>r. fst (?S X) = Inr r" by blast
      assume "calls (snd (?S X)) = calls X @ Create_default_context # new"
      with c(2) have "nw = Create_default_context # new" by simp
      with c(3) show "filter is_sendmail new = [Sendmail (sender_address cfg) (recipient_addresses cfg) msg]"
        by simp
    qed
    from one(1)[of st] one(1)[of "snd (D st)"] one(2)[OF new1(1)] one(2)[OF new2(1)]
    show ?thesis by (auto simp: fst_D)
  qed
  from new1 new2 same sends
  show "\<exists>new1 new2.
             calls (snd (D st)) = calls st @ Create_default_context # new1
           \<and> calls (snd (D (snd (D st)))) = calls (snd (D st)) @ Create_default_context # new2
           \<and> Create_default_context \<notin> set new1 \<and> Create_default_context \<notin> set new2
           \<and> ((\<forall>h h' c. smtp E h c = smtp E h' c) \<longrightarrow>
                 new2 = new1 \<and> fst (D (snd (D st))) = fst (D st))
           \<and> ((\<forall>h c. \<exists>v. smtp E h c = Inr v) \<longrightarrow>
                 filter is_sendmail new1 =
                   [Sendmail (sender_address cfg) (recipient_addresses cfg) msg]
               \<and> filter is_sendmail new2 =
                   [Sendmail (sender_address cfg) (recipient_addresses cfg) msg]
               \<and> (\<exists>r1 r2. fst (D st) = Inr (Some (get_details E operation, r1))
                         \<and> fst (D (snd (D st))) = Inr (Some (get_details E operation, r2))))"
    unfolding calls_D by (intro exI[of _ new1] exI[of _ new2]) blast
qed

theorem dispatcher_sends_again_witness:
  "OperationState_getitem (state (example_operation ''SUCCEEDED'')) = Inr SUCCEEDED
   \<and> SUCCEEDED \<in> set [SUCCEEDED]
   \<and> (\<forall>h h' c. smtp (example_env (server_refusing [])) h c = smtp (example_env (server_refusing [])) h' c)
   \<and> (\<forall>h c. \<exists>v. smtp (example_env (server_refusing [])) h c = Inr v)
   \<and> filter is_sendmail
        (calls (snd (send_job_status_message (example_env (server_refusing [])) (example_cfg True)
                    (example_operation ''SUCCEEDED'') (Some [SUCCEEDED])
          (snd (send_job_status_message (example_env (server_refusing [])) (example_cfg True)
                    (example_operation ''SUCCEEDED'') (Some [SUCCEEDED]) io0))))) =
       [Sendmail ''pipeline@a.org'' [''x@b.org'', ''y@b.org'', ''z@b.org'']
          ''Subject: Job 17: OperationState.SUCCEEDED; From: pipeline@a.org; To: x@b.org, y@b.org, z@b.org; Job 17 is SUCCEEDED'',
        Sendmail ''pipeline@a.org'' [''x@b.org'', ''y@b.org'', ''z@b.org'']
          ''Subject: Job 17: OperationState.SUCCEEDED; From: pipeline@a.org; To: x@b.org, y@b.org, z@b.org; Job 17 is SUCCEEDED'']
   \<and> fst (send_job_status_message (example_env (server_refusing [])) (example_cfg True)
                    (example_operation ''SUCCEEDED'') (Some [SUCCEEDED])
          (snd (send_job_status_message (example_env (server_refusing [])) (example_cfg True)
                    (example_operation ''SUCCEEDED'') (Some [SUCCEEDED]) io0))) =
       fst (send_job_status_message (example_env (server_refusing [])) (example_cfg True)
                    (example_operation ''SUCCEEDED'') (Some [SUCCEEDED]) io0)
   \<and> fst (send_job_status_message (example_env (server_refusing [])) (example_cfg True)
                    (example_operation ''SUCCEEDED'') (Some [SUCCEEDED]) io0) =
       Inr (Some (''Job 17 is SUCCEEDED'', PyDict []))"
proof -
  let ?E = "example_env (server_refusing [])"
  let ?D = "send_job_status_message ?E (example_cfg True) (example_operation ''SUCCEEDED'')
              (Some [SUCCEEDED])"
  let ?msg = "build_message ?E (get_details ?E (example_operation ''SUCCEEDED''))
                (''Job '' @ resource_id (example_operation ''SUCCEEDED'') @ '': ''
                   @ format_state ?E SUCCEEDED)
                (sender_address (example_cfg True)) (recipient_addresses (example_cfg True))"
  let ?S = "Sendmail (sender_address (example_cfg True)) (recipient_addresses (example_cfg True)) ?msg"
  have h: "OperationState_getitem (state (example_operation ''SUCCEEDED'')) = Inr SUCCEEDED"
    by (simp add: example_operation_def OperationState_getitem_def)
  have n: "SUCCEEDED \<in> set [SUCCEEDED]" by simp
  have i: "\<forall>h h' c. smtp ?E h c = smtp ?E h' c"
    by (simp add: example_env_def server_refusing_def)
  have ok: "\<forall>h c. \<exists>v. smtp ?E h c = Inr v"
  proof (intro allI)
    fix h c show "\<exists>v. smtp ?E h c = Inr v"
      by (cases c) (simp_all add: example_env_def server_refusing_def)
  qed
  from dispatcher_sends_again[OF h n, of ?E "example_cfg True" io0] i ok
  obtain new1 new2 where t:
    "calls (snd (?D io0)) = calls io0 @ Create_default_context # new1"
    "calls (snd (?D (snd (?D io0)))) = calls (snd (?D io0)) @ Create_default_context # new2"
    "fst (?D (snd (?D io0))) = fst (?D io0)"
    "filter is_sendmail new1 = [?S]" "filter is_sendmail new2 = [?S]"
    by blast
  have fS: "filter is_sendmail (calls (snd (?D (snd (?D io0))))) = [?S, ?S]"
    unfolding t(2) t(1) using t(4,5) by (simp add: io0_def)
  have eq: "?S = Sendmail ''pipeline@a.org'' [''x@b.org'', ''y@b.org'', ''z@b.org'']
          ''Subject: Job 17: OperationState.SUCCEEDED; From: pipeline@a.org; To: x@b.org, y@b.org, z@b.org; Job 17 is SUCCEEDED''"
    by (simp add: example_defs build_message_def)
  note two = fS[unfolded eq]
  have r: "fst (?D io0) = Inr (Some (''Job 17 is SUCCEEDED'', PyDict []))"
    by (simp add: model_defs example_defs)
  from h n i ok two t(3) r show ?thesis by (intro conjI)
qed

subsection \<open>The timeout of \<open>monitor_job\<close>\<close>

text \<open>On an SMTP layer that never raises, neither a session nor the dispatcher raises.\<close>

lemma with_body_no_raise:
  assumes "\<forall>h c. \<exists>v. lib h c = Inr v"
  shows "\<exists>r. fst (with_body lib cfg ctx msg st) = Inr r"
proof -
  obtain v1 where v1: "lib (calls st) (Starttls (keyfile cfg) (certfile cfg) ctx) = Inr v1"
    using assms by blast
  obtain v2 where v2: "lib (calls st) (Login (sender_address cfg) (sender_password cfg)) = Inr v2"
    using assms by blast
  obtain v3 where v3: "lib (calls st @ [Starttls (keyfile cfg) (certfile cfg) ctx])
                          (Login (sender_address cfg) (sender_password cfg)) = Inr v3"
    using assms by blast
  obtain v4 where v4: "lib (calls st @ [Login (sender_address cfg) (sender_password cfg)])
                          (Sendmail (sender_address cfg) (recipient_addresses cfg) msg) = Inr v4"
    using assms by blast
  obtain v5 where v5: "lib (calls st @ [Starttls (keyfile cfg) (certfile cfg) ctx,
                                        Login (sender_address cfg) (sender_password cfg)])
                          (Sendmail (sender_address cfg) (recipient_addresses cfg) msg) = Inr v5"
    using assms by blast
  show ?thesis
    by (cases "use_tls cfg") (simp_all add: with_body_def smtp_call_def v1 v2 v3 v4 v5)
qed

lemma smtp_session_no_raise:
  assumes "\<forall>h c. \<exists>v. lib h c = Inr v"
  shows "\<exists>r. fst (smtp_session lib cfg msg st) = Inr r"
proof (cases rule: smtp_session_cases[of lib st cfg msg])
  case (context_raises e)
  with assms show ?thesis by (metis sum.distinct(1))
next
  case (connect_raises v e)
  with assms show ?thesis by (metis sum.distinct(1))
next
  case (exit_raises v v' r st3 e)
  with assms show ?thesis by (metis sum.distinct(1))
next
  case (exit_returns v v' r st3 v'')
  with with_body_no_raise[OF assms, of cfg v msg "st\<lparr>calls := calls st @ [Create_default_context, connect_request cfg v]\<rparr>"]
  show ?thesis by simp
qed

lemma dispatch_no_raise:
  assumes "\<forall>h c. \<exists>v. smtp E h c = Inr v"
      and "OperationState_getitem (state operation) = Inr s" and "s \<in> set ns"
  shows "\<exists>r m1. send_job_status_message E cfg operation (Some ns) m = (Inr r, m1)"
proof -
  obtain r where "fst (smtp_session (smtp E) cfg
        (build_message E (get_details E operation)
           (''Job '' @ resource_id operation @ '': '' @ format_state E s)
           (sender_address cfg) (recipient_addresses cfg)) m) = Inr r"
    using smtp_session_no_raise[OF assms(1)] by blast
  then have "fst (send_job_status_message E cfg operation (Some ns) m) =
               Inr (Some (get_details E operation, r))"
    unfolding dispatch_fst[OF assms(2,3)] send_email_raising by simp
  then show ?thesis
    by (cases "send_job_status_message E cfg operation (Some ns) m") auto
qed

text \<open>
  The poller's loop, started in a round \<open>i\<close> no later than a round \<open>k\<close> in which the
  budget is exceeded, with no terminal state seen up to round \<open>k\<close>: it never returns a
  log, and on an SMTP layer that never raises it ends in the Timeout error once the fuel
  covers the rounds up to \<open>k\<close>.
\<close>

lemma monitor_loop_never_returns:
  assumes "\<forall>j\<le>k. \<forall>s. OperationState_getitem (state (fetch svc j)) = Inr s \<longrightarrow> \<not> terminal s"
      and "T < elapsed svc k"
  shows "i \<le> k \<Longrightarrow>
         monitor_loop fuel send_status svc cfg interval (Some T) ns i responses st \<noteq> Some (Inr out, st')"
proof (induction fuel arbitrary: i responses st)
  case 0
  show ?case by simp
next
  case (Suc fuel)
  show ?case
  proof (cases "OperationState_getitem (state (fetch svc i))")
    case (Inl e)
    then show ?thesis by simp
  next
    case (Inr s)
    with assms(1) Suc.prems have nt: "\<not> terminal s" by blast
    obtain r m1 where d: "(if s \<in> set ns then send_status cfg (fetch svc i) (Some ns) (mail st)
                    else (Inr None, mail st)) = (r, m1)"
      by (cases "if s \<in> set ns then send_status cfg (fetch svc i) (Some ns) (mail st)
                    else (Inr None, mail st)")
    show ?thesis
    proof (cases r)
      case (Inl e)
      with Inr d show ?thesis by (simp add: Let_def)
    next
      case r: (Inr v)
      show ?thesis
      proof (cases "T < elapsed svc i")
        case True
        with Inr d r nt show ?thesis by (simp add: Let_def)
      next
        case False
        with assms(2) have "i \<noteq> k" by auto
        with Suc.prems have "Suc i \<le> k" by simp
        from Suc.IH[OF this] Inr d r nt False show ?thesis by (simp add: Let_def)
      qed
    qed
  qed
qed

lemma monitor_loop_times_out:
  assumes "\<forall>j\<le>k. \<exists>s. OperationState_getitem (state (fetch svc j)) = Inr s \<and> \<not> terminal s"
      and "T < elapsed svc k"
      and "\<forall>h c. \<exists>v. smtp E h c = Inr v"
  shows "i \<le> k \<Longrightarrow> k - i < fuel \<Longrightarrow>
         \<exists>t st'. monitor_loop fuel (send_job_status_message E) svc cfg interval (Some T) ns i responses st
                  = Some (Inl (TimeoutError t), st')"
proof (induction fuel arbitrary: i responses st)
  case 0
  then show ?case by simp
next
  case (Suc fuel)
  from assms(1) Suc.prems(1) obtain s where
    s: "OperationState_getitem (state (fetch svc i)) = Inr s" and nt: "\<not> terminal s"
    by blast
  obtain r m1 where d: "(if s \<in> set ns then send_job_status_message E cfg (fetch svc i) (Some ns) (mail st)
                    else (Inr None, mail st)) = (Inr r, m1)"
    using dispatch_no_raise[OF assms(3) s, of ns cfg "mail st"] by (cases "s \<in> set ns") auto
  show ?case
  proof (cases "T < elapsed svc i")
    case True
    with s d nt show ?thesis by (simp add: Let_def)
  next
    case False
    with assms(2) have "i \<noteq> k" by auto
    with Suc.prems have "Suc i \<le> k" "k - Suc i < fuel" by simp_all
    from Suc.IH[OF this] s d nt False show ?thesis by (simp add: Let_def)
  qed
qed

text \<open>
  C2. With \<open>timeout_seconds\<close> set to \<open>T\<close>, if in some round \<open>k\<close> of the poll the elapsed
  time exceeds \<open>T\<close> and no state fetched up to that round is terminal, then \<open>monitor_job\<close>
  never returns its list of responses, whatever the number of rounds it is given: the
  timeout is not swallowed. If moreover no call into the SMTP layer raises, \<open>monitor_job\<close>
  given more than \<open>k\<close> rounds ends in the Timeout error, raised to the caller.
\<close>

theorem monitor_job_timeout:
  assumes "\<forall>j\<le>k. \<exists>s. OperationState_getitem (state (fetch svc j)) = Inr s \<and> \<not> terminal s"
      and "T < elapsed svc k"
  shows "(\<forall>fuel out st'.
            monitor_job fuel E svc cfg poll_interval_seconds (Some T) notify_states st \<noteq> Some (Inr out, st'))
       \<and> ((\<forall>h c. \<exists>v. smtp E h c = Inr v) \<longrightarrow>
            (\<forall>fuel>k. \<exists>t st'.
               monitor_job fuel E svc cfg poll_interval_seconds (Some T) notify_states st =
                 Some (Inl (TimeoutError t), st')))"
proof (intro conjI allI impI)
  fix fuel out st'
  from assms(1) have "\<forall>j\<le>k. \<forall>s. OperationState_getitem (state (fetch svc j)) = Inr s \<longrightarrow> \<not> terminal s"
    by fastforce
  from monitor_loop_never_returns[OF this assms(2), of 0]
  show "monitor_job fuel E svc cfg poll_interval_seconds (Some T) notify_states st \<noteq> Some (Inr out, st')"
    by (simp add: monitor_job_def monitor_job_common_def)
next
  fix fuel
  assume "\<forall>h c. \<exists>v. smtp E h c = Inr v" and "k < fuel"
  with monitor_loop_times_out[OF assms, of E 0 fuel]
  show "\<exists>t st'. monitor_job fuel E svc cfg poll_interval_seconds (Some T) notify_states st =
                 Some (Inl (TimeoutError t), st')"
    by (simp add: monitor_job_def monitor_job_common_def)
qed

theorem monitor_job_timeout_witness:
  "OperationState_getitem (state (fetch example_service 0)) = Inr RUNNING
   \<and> OperationState_getitem (state (fetch example_service 1)) = Inr RUNNING
   \<and> \<not> terminal RUNNING
   \<and> 2 < elapsed example_service 1
   \<and> (\<forall>h c. \<exists>v. smtp (example_env (server_refusing [])) h c = Inr v)
   \<and> (\<exists>t st'. monitor_job 2 (example_env (server_refusing [])) example_service (example_cfg True)
                  5 (Some 2) (Some [RUNNING]) monitor_io0 = Some (Inl (TimeoutError t), st'))"
proof -
  let ?E = "example_env (server_refusing [])"
  have s: "OperationState_getitem (state (fetch example_service j)) = Inr RUNNING" for j
    by (simp add: example_service_def example_operation_def OperationState_getitem_def)
  have h1: "\<forall>j\<le>1. \<exists>s. OperationState_getitem (state (fetch example_service j)) = Inr s \<and> \<not> terminal s"
    using s by simp
  have h2: "2 < elapsed example_service 1"
    by (simp add: example_service_def)
  have h3: "\<forall>h c. \<exists>v. smtp ?E h c = Inr v"
  proof (intro allI)
    fix h c show "\<exists>v. smtp ?E h c = Inr v"
      by (cases c) (simp_all add: example_env_def server_refusing_def)
  qed
  from monitor_job_timeout[OF h1 h2, of ?E "example_cfg True" 5 "Some [RUNNING]" monitor_io0] h3
  have "\<exists>t st'. monitor_job 2 ?E example_service (example_cfg True)
                  5 (Some 2) (Some [RUNNING]) monitor_io0 = Some (Inl (TimeoutError t), st')"
    by simp
  with s[of 0] s[of 1] h2 h3 show ?thesis by (intro conjI) simp_all
qed

end
